theory Spec2Isabelle
  imports Main
begin

section \<open>Values crossing the JavaScript boundary\<close>

text \<open>
  Everything \<^verbatim>\<open>src/lib/contract.ts\<close> throws or catches is a JavaScript value. The
  code distinguishes them by \<^verbatim>\<open>err instanceof Error\<close>, by \<^verbatim>\<open>err.message\<close> and by
  \<^verbatim>\<open>switchError.code === 4902\<close>, so a thrown value is either an \<^verbatim>\<open>Error\<close> object
  with its message and its (optional, numeric) \<^verbatim>\<open>code\<close> property, or some other
  object with an optional numeric \<^verbatim>\<open>code\<close>. An absent or non-numeric \<^verbatim>\<open>code\<close> is
  \<open>None\<close>. Every \<^verbatim>\<open>new Error(msg)\<close> of the source is \<open>JsError msg None\<close>.
  A promise may also be rejected with \<^verbatim>\<open>null\<close> or \<^verbatim>\<open>undefined\<close>, which are no
  objects at all.
\<close>

datatype thrown =
    JsError (message: string) "int option"
  | NonError "int option"
  | JsNull
  | JsUndefined

text \<open>
  Reading \<^verbatim>\<open>.code\<close> of a thrown value. On \<^verbatim>\<open>null\<close> and \<^verbatim>\<open>undefined\<close> the read
  itself throws a \<^verbatim>\<open>TypeError\<close>, which is an \<^verbatim>\<open>Error\<close>; its message is the engine's,
  given here as V8 words it.
\<close>

definition msg_code_of_null :: string where
  "msg_code_of_null =
     ''Cannot read properties of null (reading '' @ [CHR 0x27] @ ''code'' @ [CHR 0x27] @ '')''"

definition msg_code_of_undefined :: string where
  "msg_code_of_undefined =
     ''Cannot read properties of undefined (reading '' @ [CHR 0x27] @ ''code'' @ [CHR 0x27]
     @ '')''"

fun read_code :: "thrown \<Rightarrow> thrown + int option" where
  "read_code (JsError m c) = Inr c"
| "read_code (NonError c) = Inr c"
| "read_code JsNull = Inl (JsError msg_code_of_null None)"
| "read_code JsUndefined = Inl (JsError msg_code_of_undefined None)"

text \<open>The numeric code a thrown value carries, \<open>None\<close> when it carries none.\<close>

fun code_of :: "thrown \<Rightarrow> int option" where
  "code_of (JsError m c) = c"
| "code_of (NonError c) = c"
| "code_of JsNull = None"
| "code_of JsUndefined = None"

text \<open>
  \<^verbatim>\<open>String.prototype.includes\<close>: the needle occurs as a contiguous run. Strings are
  kept as UTF-8 bytes; the needles of the source are ASCII, for which a match on bytes
  and a match on UTF-16 code units agree.
\<close>

fun starts_with :: "string \<Rightarrow> string \<Rightarrow> bool" where
  "starts_with s [] = True"
| "starts_with [] (c # cs) = False"
| "starts_with (x # xs) (c # cs) = (x = c \<and> starts_with xs cs)"

fun str_includes :: "string \<Rightarrow> string \<Rightarrow> bool" where
  "str_includes [] needle = (needle = [])"
| "str_includes (x # xs) needle = (starts_with (x # xs) needle \<or> str_includes xs needle)"

text \<open>
  The number in a template literal, printed in decimal. \<^verbatim>\<open>Number(network.chainId)\<close>
  is exact for chain identifiers below \<open>2^53\<close>, and there the decimal rendering below
  is the one JavaScript prints. From \<open>2^53\<close> on the source prints the nearest double
  instead, which this function does not follow; nothing below evaluates it there, and no
  statement with a free chain identifier depends on the digits. The comparison of line
  45 is exact for every chain identifier, since no other integer rounds to 11155111.
\<close>

function show_nat :: "nat \<Rightarrow> string" where
  "show_nat n =
     (if n < 10 then [''0123456789'' ! n]
      else show_nat (n div 10) @ [''0123456789'' ! (n mod 10)])"
  by pat_completeness auto
termination
  by (relation "measure id") auto

declare show_nat.simps [simp del]

section \<open>Handles, the Session and the wallet\<close>

text \<open>
  The three handles are objects of the ethers library. A provider and a signer are
  known by their identity only; a contract handle is the configured address bound to
  the signer it was built with (the ABI is a fixed artifact and is left out).
\<close>

datatype provider = BrowserProvider nat
datatype signer = JsonRpcSigner nat
datatype contract = Contract (target: string) (runner: signer)
datatype tx = ContractTransactionResponse nat

record network =
  name :: string
  chainId :: nat

text \<open>The fields of \<^verbatim>\<open>CounterContractService\<close>, each \<^verbatim>\<open>null\<close> at construction.\<close>

record session =
  contract :: "contract option"
  provider :: "provider option"
  signer :: "signer option"

definition counterService :: session where
  "counterService = \<lparr>contract = None, provider = None, signer = None\<rparr>"

record native_currency =
  currency_name :: string
  symbol :: string
  decimals :: nat

record add_chain_parameter =
  chainId_hex :: string
  chainName :: string
  nativeCurrency :: native_currency
  rpcUrls :: "string list"
  blockExplorerUrls :: "string list"

text \<open>The three methods sent through \<^verbatim>\<open>window.ethereum.request\<close>, with their parameters.\<close>

datatype rpc_request =
    Eth_requestAccounts
  | Wallet_switchEthereumChain string
  | Wallet_addEthereumChain add_chain_parameter

datatype tx_method = IncrementCounter | DecrementCounter | ResetCounter

text \<open>
  Every call that leaves the class, with the handle it is made on. An event pairs a call
  with what it threw (\<open>None\<close> when it returned). \<^verbatim>\<open>console.log\<close> is not recorded.
\<close>

datatype call =
    Request rpc_request
  | NewBrowserProvider provider
  | GetSigner provider
  | GetNetwork provider
  | GetCode provider string
  | NewContract string signer
  | CallGetCounter contract
  | CallOwner contract
  | Send contract tx_method
  | TxWait tx
  | GetAddress signer

type_synonym event = "call \<times> thrown option"

text \<open>
  The world outside the class during one call of a method: whether \<^verbatim>\<open>window\<close> and
  \<^verbatim>\<open>window.ethereum\<close> exist, what the wallet answers to each request (\<open>None\<close>: the
  promise resolves), which objects the two \<^verbatim>\<open>new ethers.BrowserProvider\<close> of
  \<^verbatim>\<open>connect\<close> create, and what the ethers calls on each handle return or throw.
  \<^verbatim>\<open>contractAddress\<close> is the constant imported from \<^verbatim>\<open>./constants\<close>.
\<close>

record env =
  has_window :: bool
  has_ethereum :: bool
  contractAddress :: string
  request :: "rpc_request \<Rightarrow> thrown option"
  first_provider :: provider
  second_provider :: provider
  provider_getSigner :: "provider \<Rightarrow> thrown + signer"
  provider_getNetwork :: "provider \<Rightarrow> thrown + network"
  provider_getCode :: "provider \<Rightarrow> string \<Rightarrow> thrown + string"
  contract_getCounter :: "contract \<Rightarrow> thrown + nat"
  contract_owner :: "contract \<Rightarrow> thrown + string"
  contract_send :: "contract \<Rightarrow> tx_method \<Rightarrow> thrown + tx"
  tx_wait :: "tx \<Rightarrow> thrown option"
  signer_getAddress :: "signer \<Rightarrow> thrown + string"

section \<open>The messages of the source\<close>

text \<open>
  The Korean string literals of \<^verbatim>\<open>contract.ts\<close>, as their UTF-8 bytes, in the order
  of lines 21, 25, 115, 121 (also 143, 151, 159, 167), 134, 178, 186, 193, and the four
  fixed pieces of the template literal of line 95.
\<close>

definition msg_browser_only :: string where
  "msg_browser_only =
     [CHR 0xEC, CHR 0x9D, CHR 0xB4, CHR 0x20, CHR 0xED, CHR 0x95, CHR 0xA8, CHR 0xEC, CHR 0x88,
        CHR 0x98, CHR 0xEB, CHR 0x8A, CHR 0x94, CHR 0x20, CHR 0xEB, CHR 0xB8, CHR 0x8C,
        CHR 0xEB, CHR 0x9D, CHR 0xBC, CHR 0xEC, CHR 0x9A, CHR 0xB0, CHR 0xEC, CHR 0xA0,
        CHR 0x80, CHR 0xEC, CHR 0x97, CHR 0x90, CHR 0xEC, CHR 0x84, CHR 0x9C, CHR 0xEB,
        CHR 0xA7, CHR 0x8C, CHR 0x20, CHR 0xEC, CHR 0x8B, CHR 0xA4, CHR 0xED, CHR 0x96,
        CHR 0x89, CHR 0xED, CHR 0x95, CHR 0xA0, CHR 0x20, CHR 0xEC, CHR 0x88, CHR 0x98,
        CHR 0x20, CHR 0xEC, CHR 0x9E, CHR 0x88, CHR 0xEC, CHR 0x8A, CHR 0xB5, CHR 0xEB,
        CHR 0x8B, CHR 0x88, CHR 0xEB, CHR 0x8B, CHR 0xA4]
     @ ''.''"

definition msg_no_metamask :: string where
  "msg_no_metamask =
     ''MetaMask''
     @ [CHR 0xEA, CHR 0xB0, CHR 0x80, CHR 0x20, CHR 0xEC, CHR 0x84, CHR 0xA4, CHR 0xEC,
        CHR 0xB9, CHR 0x98, CHR 0xEB, CHR 0x90, CHR 0x98, CHR 0xEC, CHR 0xA7, CHR 0x80,
        CHR 0x20, CHR 0xEC, CHR 0x95, CHR 0x8A, CHR 0xEC, CHR 0x95, CHR 0x98, CHR 0xEC,
        CHR 0x8A, CHR 0xB5, CHR 0xEB, CHR 0x8B, CHR 0x88, CHR 0xEB, CHR 0x8B, CHR 0xA4]
     @ ''.''"

definition msg_connect_failed :: string where
  "msg_connect_failed =
     [CHR 0xEC, CHR 0xA7, CHR 0x80, CHR 0xEA, CHR 0xB0, CHR 0x91, CHR 0x20, CHR 0xEC, CHR 0x97,
        CHR 0xB0, CHR 0xEA, CHR 0xB2, CHR 0xB0, CHR 0xEC, CHR 0x97, CHR 0x90, CHR 0x20,
        CHR 0xEC, CHR 0x8B, CHR 0xA4, CHR 0xED, CHR 0x8C, CHR 0xA8, CHR 0xED, CHR 0x96,
        CHR 0x88, CHR 0xEC, CHR 0x8A, CHR 0xB5, CHR 0xEB, CHR 0x8B, CHR 0x88, CHR 0xEB,
        CHR 0x8B, CHR 0xA4]
     @ ''.''"

definition msg_contract_not_connected :: string where
  "msg_contract_not_connected =
     [CHR 0xEC, CHR 0xBB, CHR 0xA8, CHR 0xED, CHR 0x8A, CHR 0xB8, CHR 0xEB, CHR 0x9E, CHR 0x99,
        CHR 0xED, CHR 0x8A, CHR 0xB8, CHR 0xEC, CHR 0x97, CHR 0x90, CHR 0x20, CHR 0xEC,
        CHR 0x97, CHR 0xB0, CHR 0xEA, CHR 0xB2, CHR 0xB0, CHR 0xEB, CHR 0x90, CHR 0x98,
        CHR 0xEC, CHR 0xA7, CHR 0x80, CHR 0x20, CHR 0xEC, CHR 0x95, CHR 0x8A, CHR 0xEC,
        CHR 0x95, CHR 0x98, CHR 0xEC, CHR 0x8A, CHR 0xB5, CHR 0xEB, CHR 0x8B, CHR 0x88,
        CHR 0xEB, CHR 0x8B, CHR 0xA4]
     @ ''.''"

definition msg_counter_unreadable :: string where
  "msg_counter_unreadable =
     [CHR 0xEC, CHR 0xBB, CHR 0xA8, CHR 0xED, CHR 0x8A, CHR 0xB8, CHR 0xEB, CHR 0x9E, CHR 0x99,
        CHR 0xED, CHR 0x8A, CHR 0xB8, CHR 0xEC, CHR 0x97, CHR 0x90, CHR 0xEC, CHR 0x84,
        CHR 0x9C, CHR 0x20, CHR 0xEB, CHR 0x8D, CHR 0xB0, CHR 0xEC, CHR 0x9D, CHR 0xB4,
        CHR 0xED, CHR 0x84, CHR 0xB0, CHR 0xEB, CHR 0xA5, CHR 0xBC, CHR 0x20, CHR 0xEC,
        CHR 0x9D, CHR 0xBD, CHR 0xEC, CHR 0x9D, CHR 0x84, CHR 0x20, CHR 0xEC, CHR 0x88,
        CHR 0x98, CHR 0x20, CHR 0xEC, CHR 0x97, CHR 0x86, CHR 0xEC, CHR 0x8A, CHR 0xB5,
        CHR 0xEB, CHR 0x8B, CHR 0x88, CHR 0xEB, CHR 0x8B, CHR 0xA4]
     @ ''. ''
     @ [CHR 0xEC, CHR 0x9E, CHR 0x98, CHR 0xEB, CHR 0xAA, CHR 0xBB, CHR 0xEB, CHR 0x90,
        CHR 0x9C, CHR 0x20, CHR 0xEC, CHR 0xBB, CHR 0xA8, CHR 0xED, CHR 0x8A, CHR 0xB8,
        CHR 0xEB, CHR 0x9E, CHR 0x99, CHR 0xED, CHR 0x8A, CHR 0xB8, CHR 0x20, CHR 0xEC,
        CHR 0xA3, CHR 0xBC, CHR 0xEC, CHR 0x86, CHR 0x8C, CHR 0x20, CHR 0xEB, CHR 0x98,
        CHR 0x90, CHR 0xEB, CHR 0x8A, CHR 0x94, CHR 0x20, CHR 0xEB, CHR 0x84, CHR 0xA4,
        CHR 0xED, CHR 0x8A, CHR 0xB8, CHR 0xEC, CHR 0x9B, CHR 0x8C, CHR 0xED, CHR 0x81,
        CHR 0xAC, CHR 0xEC, CHR 0x9D, CHR 0xBC, CHR 0x20, CHR 0xEC, CHR 0x88, CHR 0x98,
        CHR 0x20, CHR 0xEC, CHR 0x9E, CHR 0x88, CHR 0xEC, CHR 0x8A, CHR 0xB5, CHR 0xEB,
        CHR 0x8B, CHR 0x88, CHR 0xEB, CHR 0x8B, CHR 0xA4]
     @ ''.''"

definition msg_owner_unreadable :: string where
  "msg_owner_unreadable =
     [CHR 0xEC, CHR 0xBB, CHR 0xA8, CHR 0xED, CHR 0x8A, CHR 0xB8, CHR 0xEB, CHR 0x9E, CHR 0x99,
        CHR 0xED, CHR 0x8A, CHR 0xB8, CHR 0x20, CHR 0xEC, CHR 0x86, CHR 0x8C, CHR 0xEC,
        CHR 0x9C, CHR 0xA0, CHR 0xEC, CHR 0x9E, CHR 0x90, CHR 0x20, CHR 0xEC, CHR 0xA0,
        CHR 0x95, CHR 0xEB, CHR 0xB3, CHR 0xB4, CHR 0xEB, CHR 0xA5, CHR 0xBC, CHR 0x20,
        CHR 0xEC, CHR 0x9D, CHR 0xBD, CHR 0xEC, CHR 0x9D, CHR 0x84, CHR 0x20, CHR 0xEC,
        CHR 0x88, CHR 0x98, CHR 0x20, CHR 0xEC, CHR 0x97, CHR 0x86, CHR 0xEC, CHR 0x8A,
        CHR 0xB5, CHR 0xEB, CHR 0x8B, CHR 0x88, CHR 0xEB, CHR 0x8B, CHR 0xA4]
     @ ''.''"

definition msg_wallet_not_connected :: string where
  "msg_wallet_not_connected =
     [CHR 0xEC, CHR 0xA7, CHR 0x80, CHR 0xEA, CHR 0xB0, CHR 0x91, CHR 0xEC, CHR 0x97, CHR 0x90,
        CHR 0x20, CHR 0xEC, CHR 0x97, CHR 0xB0, CHR 0xEA, CHR 0xB2, CHR 0xB0, CHR 0xEB,
        CHR 0x90, CHR 0x98, CHR 0xEC, CHR 0xA7, CHR 0x80, CHR 0x20, CHR 0xEC, CHR 0x95,
        CHR 0x8A, CHR 0xEC, CHR 0x95, CHR 0x98, CHR 0xEC, CHR 0x8A, CHR 0xB5, CHR 0xEB,
        CHR 0x8B, CHR 0x88, CHR 0xEB, CHR 0x8B, CHR 0xA4]
     @ ''.''"

definition msg_provider_not_connected :: string where
  "msg_provider_not_connected =
     [CHR 0xED, CHR 0x94, CHR 0x84, CHR 0xEB, CHR 0xA1, CHR 0x9C, CHR 0xEB, CHR 0xB0, CHR 0x94,
        CHR 0xEC, CHR 0x9D, CHR 0xB4, CHR 0xEB, CHR 0x8D, CHR 0x94, CHR 0xEC, CHR 0x97,
        CHR 0x90, CHR 0x20, CHR 0xEC, CHR 0x97, CHR 0xB0, CHR 0xEA, CHR 0xB2, CHR 0xB0,
        CHR 0xEB, CHR 0x90, CHR 0x98, CHR 0xEC, CHR 0xA7, CHR 0x80, CHR 0x20, CHR 0xEC,
        CHR 0x95, CHR 0x8A, CHR 0xEC, CHR 0x95, CHR 0x98, CHR 0xEC, CHR 0x8A, CHR 0xB5,
        CHR 0xEB, CHR 0x8B, CHR 0x88, CHR 0xEB, CHR 0x8B, CHR 0xA4]
     @ ''.''"

definition not_deployed_head :: string where
  "not_deployed_head =
     [CHR 0xEC, CHR 0xBB, CHR 0xA8, CHR 0xED, CHR 0x8A, CHR 0xB8, CHR 0xEB, CHR 0x9E, CHR 0x99,
        CHR 0xED, CHR 0x8A, CHR 0xB8, CHR 0xEA, CHR 0xB0, CHR 0x80, CHR 0x20, CHR 0xEC,
        CHR 0xA7, CHR 0x80, CHR 0xEC, CHR 0xA0, CHR 0x95, CHR 0xEB, CHR 0x90, CHR 0x9C,
        CHR 0x20, CHR 0xEC, CHR 0xA3, CHR 0xBC, CHR 0xEC, CHR 0x86, CHR 0x8C]
     @ ''(''"

definition not_deployed_mid :: string where
  "not_deployed_mid =
     '')''
     @ [CHR 0xEC, CHR 0x97, CHR 0x90, CHR 0x20, CHR 0xEB, CHR 0xB0, CHR 0xB0, CHR 0xED,
        CHR 0x8F, CHR 0xAC, CHR 0xEB, CHR 0x90, CHR 0x98, CHR 0xEC, CHR 0xA7, CHR 0x80,
        CHR 0x20, CHR 0xEC, CHR 0x95, CHR 0x8A, CHR 0xEC, CHR 0x95, CHR 0x98, CHR 0xEC,
        CHR 0x8A, CHR 0xB5, CHR 0xEB, CHR 0x8B, CHR 0x88, CHR 0xEB, CHR 0x8B, CHR 0xA4]
     @ ''.''
     @ [CHR 0x0A, CHR 0xED, CHR 0x98, CHR 0x84, CHR 0xEC, CHR 0x9E, CHR 0xAC, CHR 0x20,
        CHR 0xEB, CHR 0x84, CHR 0xA4, CHR 0xED, CHR 0x8A, CHR 0xB8, CHR 0xEC, CHR 0x9B,
        CHR 0x8C, CHR 0xED, CHR 0x81, CHR 0xAC]
     @ '': ''"

definition not_deployed_chain :: string where
  "not_deployed_chain =
     '' (Chain ID: ''"

definition not_deployed_tail :: string where
  "not_deployed_tail =
     '')''
     @ [CHR 0x0A]
     @ ''Remix''
     @ [CHR 0xEC, CHR 0x97, CHR 0x90, CHR 0xEC, CHR 0x84, CHR 0x9C, CHR 0x20, CHR 0xEB,
        CHR 0xB0, CHR 0xB0, CHR 0xED, CHR 0x8F, CHR 0xAC, CHR 0xED, CHR 0x95, CHR 0x9C,
        CHR 0x20, CHR 0xEB, CHR 0x84, CHR 0xA4, CHR 0xED, CHR 0x8A, CHR 0xB8, CHR 0xEC,
        CHR 0x9B, CHR 0x8C, CHR 0xED, CHR 0x81, CHR 0xAC, CHR 0xEC, CHR 0x99, CHR 0x80,
        CHR 0x20, CHR 0xEB, CHR 0x8F, CHR 0x99, CHR 0xEC, CHR 0x9D, CHR 0xBC, CHR 0xED,
        CHR 0x95, CHR 0x9C, CHR 0xEC, CHR 0xA7, CHR 0x80, CHR 0x20, CHR 0xED, CHR 0x99,
        CHR 0x95, CHR 0xEC, CHR 0x9D, CHR 0xB8, CHR 0xED, CHR 0x95, CHR 0x98, CHR 0xEC,
        CHR 0x84, CHR 0xB8, CHR 0xEC, CHR 0x9A, CHR 0x94]
     @ ''.''"

definition not_deployed_message :: "string \<Rightarrow> string \<Rightarrow> nat \<Rightarrow> string" where
  "not_deployed_message address network_name chain =
     not_deployed_head @ address @ not_deployed_mid @ network_name
     @ not_deployed_chain @ show_nat chain @ not_deployed_tail"

section \<open>connect\<close>

definition SEPOLIA_CHAIN_ID :: string where
  "SEPOLIA_CHAIN_ID = ''0xaa36a7''"

definition SEPOLIA_CHAIN_ID_DECIMAL :: nat where
  "SEPOLIA_CHAIN_ID_DECIMAL = 11155111"

text \<open>The parameter object of the \<^verbatim>\<open>wallet_addEthereumChain\<close> request, lines 58 to 68.\<close>

definition sepolia_parameter :: add_chain_parameter where
  "sepolia_parameter =
     \<lparr>chainId_hex = SEPOLIA_CHAIN_ID,
      chainName = ''Sepolia'',
      nativeCurrency = \<lparr>currency_name = ''ETH'', symbol = ''ETH'', decimals = 18\<rparr>,
      rpcUrls = [''https://ethereum-sepolia-rpc.publicnode.com''],
      blockExplorerUrls = [''https://sepolia.etherscan.io'']\<rparr>"

text \<open>
  Lines 46 to 75: the switch request and its handler. The handler reads the code of the
  switch error (line 54), which throws in its turn when the error is \<^verbatim>\<open>null\<close> or
  \<^verbatim>\<open>undefined\<close>. A switch error whose code is 4902 is answered by the add-chain
  request; any other one is thrown again.
\<close>

definition switch_to_sepolia :: "env \<Rightarrow> (thrown + unit) \<times> event list" where
  "switch_to_sepolia e =
     (case request e (Wallet_switchEthereumChain SEPOLIA_CHAIN_ID) of
        None \<Rightarrow> (Inr (), [(Request (Wallet_switchEthereumChain SEPOLIA_CHAIN_ID), None)])
      | Some switchError \<Rightarrow>
          (case read_code switchError of
             Inl typeError \<Rightarrow>
               (Inl typeError,
                [(Request (Wallet_switchEthereumChain SEPOLIA_CHAIN_ID), Some switchError)])
           | Inr code \<Rightarrow>
               if code = Some 4902 then
                 (case request e (Wallet_addEthereumChain sepolia_parameter) of
                    None \<Rightarrow>
                      (Inr (),
                       [(Request (Wallet_switchEthereumChain SEPOLIA_CHAIN_ID),
                         Some switchError),
                        (Request (Wallet_addEthereumChain sepolia_parameter), None)])
                  | Some addError \<Rightarrow>
                      (Inl addError,
                       [(Request (Wallet_switchEthereumChain SEPOLIA_CHAIN_ID),
                         Some switchError),
                        (Request (Wallet_addEthereumChain sepolia_parameter), Some addError)]))
               else
                 (Inl switchError,
                  [(Request (Wallet_switchEthereumChain SEPOLIA_CHAIN_ID),
                    Some switchError)])))"

text \<open>
  Lines 77 to 88: a second provider handle is built and stored, the signer is asked of
  it and stored, and the network is asked of it again; the answer is only logged.
\<close>

definition rederive ::
  "env \<Rightarrow> session \<Rightarrow> (thrown + provider \<times> signer) \<times> session \<times> event list" where
  "rederive e s =
     (let p = second_provider e; s1 = s\<lparr>provider := Some p\<rparr> in
      case provider_getSigner e p of
        Inl t \<Rightarrow> (Inl t, s1, [(NewBrowserProvider p, None), (GetSigner p, Some t)])
      | Inr sg \<Rightarrow>
          (let s2 = s1\<lparr>signer := Some sg\<rparr> in
           case provider_getNetwork e p of
             Inl t \<Rightarrow>
               (Inl t, s2,
                [(NewBrowserProvider p, None), (GetSigner p, None), (GetNetwork p, Some t)])
           | Inr updatedNetwork \<Rightarrow>
               (Inr (p, sg), s2,
                [(NewBrowserProvider p, None), (GetSigner p, None), (GetNetwork p, None)])))"

text \<open>
  Lines 90 to 106, with \<open>p\<close> and \<open>sg\<close> the values \<^verbatim>\<open>this.provider\<close> and
  \<^verbatim>\<open>this.signer\<close> hold there and \<open>nw\<close> the constant \<^verbatim>\<open>network\<close> of line 36, whose
  name and chain identifier the message of line 95 prints.
\<close>

definition verify_and_bind ::
  "env \<Rightarrow> network \<Rightarrow> provider \<Rightarrow> signer \<Rightarrow> session
     \<Rightarrow> (thrown + unit) \<times> session \<times> event list" where
  "verify_and_bind e nw p sg s =
     (case provider_getCode e p (contractAddress e) of
        Inl t \<Rightarrow> (Inl t, s, [(GetCode p (contractAddress e), Some t)])
      | Inr code \<Rightarrow>
          if code = ''0x'' then
            (Inl (JsError (not_deployed_message (contractAddress e) (name nw) (chainId nw)) None),
             s, [(GetCode p (contractAddress e), None)])
          else
            (Inr (), s\<lparr>contract := Some (Contract (contractAddress e) sg)\<rparr>,
             [(GetCode p (contractAddress e), None),
              (NewContract (contractAddress e) sg, None)]))"

text \<open>The body of the \<^verbatim>\<open>try\<close> block, lines 29 to 106.\<close>

definition connect_body :: "env \<Rightarrow> session \<Rightarrow> (thrown + unit) \<times> session \<times> event list" where
  "connect_body e s =
     (case request e Eth_requestAccounts of
        Some t \<Rightarrow> (Inl t, s, [(Request Eth_requestAccounts, Some t)])
      | None \<Rightarrow>
          (let p = first_provider e; s1 = s\<lparr>provider := Some p\<rparr> in
           case provider_getSigner e p of
             Inl t \<Rightarrow>
               (Inl t, s1,
                [(Request Eth_requestAccounts, None), (NewBrowserProvider p, None),
                 (GetSigner p, Some t)])
           | Inr sg \<Rightarrow>
               (let s2 = s1\<lparr>signer := Some sg\<rparr> in
                case provider_getNetwork e p of
                  Inl t \<Rightarrow>
                    (Inl t, s2,
                     [(Request Eth_requestAccounts, None), (NewBrowserProvider p, None),
                      (GetSigner p, None), (GetNetwork p, Some t)])
                | Inr nw \<Rightarrow>
                    (let pre = [(Request Eth_requestAccounts, None), (NewBrowserProvider p, None),
                                (GetSigner p, None), (GetNetwork p, None)] in
                     if chainId nw \<noteq> SEPOLIA_CHAIN_ID_DECIMAL then
                       (case switch_to_sepolia e of
                          (Inl t, tr) \<Rightarrow> (Inl t, s2, pre @ tr)
                        | (Inr u, tr) \<Rightarrow>
                            (case rederive e s2 of
                               (Inl t, s3, tr2) \<Rightarrow> (Inl t, s3, pre @ tr @ tr2)
                             | (Inr (p2, sg2), s3, tr2) \<Rightarrow>
                                 (case verify_and_bind e nw p2 sg2 s3 of
                                    (r, s4, tr3) \<Rightarrow> (r, s4, pre @ tr @ tr2 @ tr3))))
                     else
                       (case verify_and_bind e nw p sg s2 of
                          (r, s4, tr3) \<Rightarrow> (r, s4, pre @ tr3))))))"

text \<open>
  The \<^verbatim>\<open>catch\<close> of lines 107 to 116: an \<^verbatim>\<open>Error\<close> whose message includes
  \<^verbatim>\<open>already pending\<close> ends the call normally, any other \<^verbatim>\<open>Error\<close> is thrown again,
  and anything else is replaced by a new \<^verbatim>\<open>Error\<close>.
\<close>

fun connect_catch :: "thrown \<Rightarrow> thrown + unit" where
  "connect_catch (JsError m c) =
     (if str_includes m ''already pending'' then Inr () else Inl (JsError m c))"
| "connect_catch (NonError c) = Inl (JsError msg_connect_failed None)"
| "connect_catch JsNull = Inl (JsError msg_connect_failed None)"
| "connect_catch JsUndefined = Inl (JsError msg_connect_failed None)"

definition connect :: "env \<Rightarrow> session \<Rightarrow> (thrown + unit) \<times> session \<times> event list" where
  "connect e s =
     (if \<not> has_window e then (Inl (JsError msg_browser_only None), s, [])
      else if \<not> has_ethereum e then (Inl (JsError msg_no_metamask None), s, [])
      else
        (case connect_body e s of
           (Inr u, s', tr) \<Rightarrow> (Inr (), s', tr)
         | (Inl err, s', tr) \<Rightarrow> (connect_catch err, s', tr)))"

section \<open>The other methods\<close>

text \<open>
  The \<^verbatim>\<open>catch\<close> of \<^verbatim>\<open>getCounter\<close> and \<^verbatim>\<open>getOwner\<close>: an \<^verbatim>\<open>Error\<close> whose message
  includes \<^verbatim>\<open>could not decode result data\<close> is replaced by a new \<^verbatim>\<open>Error\<close> with the
  method's own message; anything else is thrown again.
\<close>

fun read_catch :: "string \<Rightarrow> thrown \<Rightarrow> thrown" where
  "read_catch msg (JsError m c) =
     (if str_includes m ''could not decode result data'' then JsError msg None
      else JsError m c)"
| "read_catch msg (NonError c) = NonError c"
| "read_catch msg JsNull = JsNull"
| "read_catch msg JsUndefined = JsUndefined"

definition getCounter :: "env \<Rightarrow> session \<Rightarrow> (thrown + nat) \<times> session \<times> event list" where
  "getCounter e s =
     (case contract s of
        None \<Rightarrow> (Inl (JsError msg_contract_not_connected None), s, [])
      | Some c \<Rightarrow>
          (case provider s of
             None \<Rightarrow> (Inl (JsError msg_contract_not_connected None), s, [])
           | Some p \<Rightarrow>
               (case contract_getCounter e c of
                  Inr result \<Rightarrow> (Inr result, s, [(CallGetCounter c, None)])
                | Inl err \<Rightarrow>
                    (Inl (read_catch msg_counter_unreadable err), s,
                     [(CallGetCounter c, Some err)]))))"

text \<open>
  The three state-changing methods: the transaction is sent, then its inclusion is
  awaited; nothing is caught.
\<close>

definition submit ::
  "tx_method \<Rightarrow> env \<Rightarrow> session \<Rightarrow> (thrown + unit) \<times> session \<times> event list" where
  "submit m e s =
     (case contract s of
        None \<Rightarrow> (Inl (JsError msg_contract_not_connected None), s, [])
      | Some c \<Rightarrow>
          (case contract_send e c m of
             Inl t \<Rightarrow> (Inl t, s, [(Send c m, Some t)])
           | Inr tx \<Rightarrow>
               (case tx_wait e tx of
                  Some t \<Rightarrow> (Inl t, s, [(Send c m, None), (TxWait tx, Some t)])
                | None \<Rightarrow> (Inr (), s, [(Send c m, None), (TxWait tx, None)]))))"

definition incrementCounter ::
  "env \<Rightarrow> session \<Rightarrow> (thrown + unit) \<times> session \<times> event list" where
  "incrementCounter = submit IncrementCounter"

definition decrementCounter ::
  "env \<Rightarrow> session \<Rightarrow> (thrown + unit) \<times> session \<times> event list" where
  "decrementCounter = submit DecrementCounter"

definition resetCounter ::
  "env \<Rightarrow> session \<Rightarrow> (thrown + unit) \<times> session \<times> event list" where
  "resetCounter = submit ResetCounter"

definition getOwner :: "env \<Rightarrow> session \<Rightarrow> (thrown + string) \<times> session \<times> event list" where
  "getOwner e s =
     (case contract s of
        None \<Rightarrow> (Inl (JsError msg_contract_not_connected None), s, [])
      | Some c \<Rightarrow>
          (case contract_owner e c of
             Inr result \<Rightarrow> (Inr result, s, [(CallOwner c, None)])
           | Inl err \<Rightarrow>
               (Inl (read_catch msg_owner_unreadable err), s, [(CallOwner c, Some err)])))"

definition getWalletAddress ::
  "env \<Rightarrow> session \<Rightarrow> (thrown + string) \<times> session \<times> event list" where
  "getWalletAddress e s =
     (case signer s of
        None \<Rightarrow> (Inl (JsError msg_wallet_not_connected None), s, [])
      | Some sg \<Rightarrow>
          (case signer_getAddress e sg of
             Inl t \<Rightarrow> (Inl t, s, [(GetAddress sg, Some t)])
           | Inr a \<Rightarrow> (Inr a, s, [(GetAddress sg, None)])))"

definition getNetwork ::
  "env \<Rightarrow> session \<Rightarrow> (thrown + network) \<times> session \<times> event list" where
  "getNetwork e s =
     (case provider s of
        None \<Rightarrow> (Inl (JsError msg_provider_not_connected None), s, [])
      | Some p \<Rightarrow>
          (case provider_getNetwork e p of
             Inl t \<Rightarrow> (Inl t, s, [(GetNetwork p, Some t)])
           | Inr nw \<Rightarrow> (Inr nw, s, [(GetNetwork p, None)])))"

definition isConnected :: "session \<Rightarrow> bool" where
  "isConnected s = (contract s \<noteq> None)"

text \<open>
  The error kinds of the specification are not classes in the source: every one is a
  plain \<^verbatim>\<open>Error\<close>, told apart by its message. \<open>NotConnectedError\<close> is the error of
  lines 121, 143, 151, 159 and 167, of line 186 or of line 193; \<open>ContractReadError\<close>
  is the one of line 134 or of line 178.
\<close>

definition is_NotConnectedError :: "thrown \<Rightarrow> bool" where
  "is_NotConnectedError t =
     (t = JsError msg_contract_not_connected None
      \<or> t = JsError msg_wallet_not_connected None
      \<or> t = JsError msg_provider_not_connected None)"

definition is_ContractReadError :: "thrown \<Rightarrow> bool" where
  "is_ContractReadError t =
     (t = JsError msg_counter_unreadable None \<or> t = JsError msg_owner_unreadable None)"

text \<open>What a call threw, as the trace records it.\<close>

fun thrown_of :: "thrown + 'a \<Rightarrow> thrown option" where
  "thrown_of (Inl t) = Some t"
| "thrown_of (Inr x) = None"

text \<open>
  The two chain requests of \<open>connect\<close>, and the part of a trace that follows them:
  everything after the first run of switch and add-chain requests.
\<close>

fun is_chain_request :: "call \<Rightarrow> bool" where
  "is_chain_request (Request (Wallet_switchEthereumChain c)) = True"
| "is_chain_request (Request (Wallet_addEthereumChain d)) = True"
| "is_chain_request other = False"

definition after_chain_requests :: "event list \<Rightarrow> event list" where
  "after_chain_requests tr =
     dropWhile (\<lambda>ev. is_chain_request (fst ev))
       (dropWhile (\<lambda>ev. \<not> is_chain_request (fst ev)) tr)"

section \<open>Sequences of calls\<close>

text \<open>
  The presentation layer calls the public methods one after another on the one shared
  instance. A call is an operation together with the world it meets; only the Session
  is carried from one call to the next.
\<close>

datatype operation =
    OpConnect | OpGetCounter | OpIncrementCounter | OpDecrementCounter | OpResetCounter
  | OpGetOwner | OpGetWalletAddress | OpGetNetwork | OpIsConnected

fun exec :: "operation \<Rightarrow> env \<Rightarrow> session \<Rightarrow> session" where
  "exec OpConnect e s = fst (snd (connect e s))"
| "exec OpGetCounter e s = fst (snd (getCounter e s))"
| "exec OpIncrementCounter e s = fst (snd (incrementCounter e s))"
| "exec OpDecrementCounter e s = fst (snd (decrementCounter e s))"
| "exec OpResetCounter e s = fst (snd (resetCounter e s))"
| "exec OpGetOwner e s = fst (snd (getOwner e s))"
| "exec OpGetWalletAddress e s = fst (snd (getWalletAddress e s))"
| "exec OpGetNetwork e s = fst (snd (getNetwork e s))"
| "exec OpIsConnected e s = s"

fun run :: "(operation \<times> env) list \<Rightarrow> session \<Rightarrow> session" where
  "run [] s = s"
| "run ((op, e) # rest) s = run rest (exec op e s)"

text \<open>
  A call of \<open>connect\<close> runs through when both guards pass and the \<^verbatim>\<open>try\<close> block
  reaches its end (line 106) without a throw.
\<close>

definition runs_through :: "env \<Rightarrow> session \<Rightarrow> bool" where
  "runs_through e s = (has_window e \<and> has_ethereum e \<and> fst (connect_body e s) = Inr ())"

fun some_connect_ran_through :: "(operation \<times> env) list \<Rightarrow> session \<Rightarrow> bool" where
  "some_connect_ran_through [] s = False"
| "some_connect_ran_through ((op, e) # rest) s =
     ((op = OpConnect \<and> runs_through e s) \<or> some_connect_ran_through rest (exec op e s))"

section \<open>Concrete worlds\<close>

definition sepolia :: network where
  "sepolia = \<lparr>name = ''sepolia'', chainId = 11155111\<rparr>"

definition mainnet :: network where
  "mainnet = \<lparr>name = ''mainnet'', chainId = 1\<rparr>"

text \<open>A wallet already on Sepolia, where the contract is deployed and every call succeeds.\<close>

definition wallet_on_sepolia :: env where
  "wallet_on_sepolia =
     \<lparr>has_window = True,
      has_ethereum = True,
      contractAddress = ''0x5FbDB2315678afecb367f032d93F642f64180aa3'',
      request = (\<lambda>r. None),
      first_provider = BrowserProvider 1,
      second_provider = BrowserProvider 2,
      provider_getSigner = (\<lambda>p. Inr (JsonRpcSigner 1)),
      provider_getNetwork = (\<lambda>p. Inr sepolia),
      provider_getCode = (\<lambda>p a. Inr ''0x6080604052''),
      contract_getCounter = (\<lambda>c. Inr 3),
      contract_owner = (\<lambda>c. Inr ''0xf39Fd6e51aad88F6F4ce6aB8827279cffFb92266''),
      contract_send = (\<lambda>c m. Inr (ContractTransactionResponse 1)),
      tx_wait = (\<lambda>t. None),
      signer_getAddress = (\<lambda>sg. Inr ''0x70997970C51812dc3A010C7d01b50e0d17dc79C8'')\<rparr>"

text \<open>The same wallet, with no code at the configured address.\<close>

definition wallet_without_code :: env where
  "wallet_without_code = wallet_on_sepolia\<lparr>provider_getCode := (\<lambda>p a. Inr ''0x'')\<rparr>"

text \<open>A wallet that still has an account request open and rejects the new one.\<close>

definition pending_error :: thrown where
  "pending_error =
     JsError ''Request of type wallet_requestPermissions already pending for origin. Please wait.''
       (Some (- 32002))"

definition wallet_request_pending :: env where
  "wallet_request_pending =
     wallet_on_sepolia
       \<lparr>request := (\<lambda>r. case r of Eth_requestAccounts \<Rightarrow> Some pending_error | _ \<Rightarrow> None)\<rparr>"

text \<open>
  A wallet on another chain: the first provider handle sees mainnet, the second one what
  the wallet is on after the switch.
\<close>

definition wallet_on_mainnet :: env where
  "wallet_on_mainnet =
     wallet_on_sepolia
       \<lparr>provider_getNetwork :=
          (\<lambda>p. if p = BrowserProvider 1 then Inr mainnet else Inr sepolia)\<rparr>"

text \<open>A wallet whose user declines the account request.\<close>

definition user_rejected :: thrown where
  "user_rejected = JsError ''User rejected the request.'' (Some 4001)"

definition wallet_user_rejects :: env where
  "wallet_user_rejects =
     wallet_on_sepolia
       \<lparr>request := (\<lambda>r. case r of Eth_requestAccounts \<Rightarrow> Some user_rejected | _ \<Rightarrow> None)\<rparr>"

text \<open>
  A wallet on mainnet that does not know Sepolia and words its refusal of the switch
  with "already pending"; its user then declines the request to add the chain.
\<close>

definition unknown_chain_pending :: thrown where
  "unknown_chain_pending =
     JsError ''Unrecognized chain ID 0xaa36a7. A request to add this chain is already pending.''
       (Some 4902)"

definition wallet_unknown_chain_pending :: env where
  "wallet_unknown_chain_pending =
     wallet_on_mainnet
       \<lparr>request :=
          (\<lambda>r. case r of
                 Eth_requestAccounts \<Rightarrow> None
               | Wallet_switchEthereumChain c \<Rightarrow> Some unknown_chain_pending
               | Wallet_addEthereumChain d \<Rightarrow> Some user_rejected)\<rparr>"

text \<open>A wallet on mainnet that still has a switch request open and rejects the new one.\<close>

definition switch_pending :: thrown where
  "switch_pending =
     JsError
       ''Request of type wallet_switchEthereumChain already pending for origin. Please wait.''
       (Some (- 32002))"

definition wallet_switch_pending :: env where
  "wallet_switch_pending =
     wallet_on_mainnet
       \<lparr>request :=
          (\<lambda>r. case r of Wallet_switchEthereumChain c \<Rightarrow> Some switch_pending | _ \<Rightarrow> None)\<rparr>"

text \<open>A wallet on mainnet whose user declines the switch.\<close>

definition wallet_switch_rejected :: env where
  "wallet_switch_rejected =
     wallet_on_mainnet
       \<lparr>request :=
          (\<lambda>r. case r of Wallet_switchEthereumChain c \<Rightarrow> Some user_rejected | _ \<Rightarrow> None)\<rparr>"

text \<open>
  A wallet on mainnet whose user declines the switch, and which rejects with a plain
  object carrying the code 4001 rather than with an \<^verbatim>\<open>Error\<close>.
\<close>

definition wallet_switch_declined :: env where
  "wallet_switch_declined =
     wallet_on_mainnet
       \<lparr>request :=
          (\<lambda>r. case r of Wallet_switchEthereumChain c \<Rightarrow> Some (NonError (Some 4001))
               | _ \<Rightarrow> None)\<rparr>"

text \<open>A wallet on mainnet that rejects the switch with \<^verbatim>\<open>null\<close>.\<close>

definition wallet_switch_rejects_null :: env where
  "wallet_switch_rejects_null =
     wallet_on_mainnet
       \<lparr>request := (\<lambda>r. case r of Wallet_switchEthereumChain c \<Rightarrow> Some JsNull | _ \<Rightarrow> None)\<rparr>"

text \<open>
  A wallet on mainnet that does not know Sepolia, adds it on request and stays on
  mainnet: every provider handle sees mainnet.
\<close>

definition unknown_chain :: thrown where
  "unknown_chain = JsError ''Unrecognized chain ID 0xaa36a7.'' (Some 4902)"

definition wallet_adds_without_switching :: env where
  "wallet_adds_without_switching =
     wallet_on_sepolia
       \<lparr>request :=
          (\<lambda>r. case r of Wallet_switchEthereumChain c \<Rightarrow> Some unknown_chain | _ \<Rightarrow> None),
        provider_getNetwork := (\<lambda>p. Inr mainnet)\<rparr>"

text \<open>
  A wallet on mainnet that switches to Sepolia when asked, with no code at the
  configured address on Sepolia.
\<close>

definition wallet_switched_without_code :: env where
  "wallet_switched_without_code = wallet_on_mainnet\<lparr>provider_getCode := (\<lambda>p a. Inr ''0x'')\<rparr>"

text \<open>
  The Session after a successful \<open>connect\<close> on Sepolia, and a Session holding a contract
  handle without a provider handle.
\<close>

definition connected_session :: session where
  "connected_session =
     \<lparr>contract = Some (Contract ''0x5FbDB2315678afecb367f032d93F642f64180aa3''
                        (JsonRpcSigner 1)),
      provider = Some (BrowserProvider 1),
      signer = Some (JsonRpcSigner 1)\<rparr>"

definition session_without_provider :: session where
  "session_without_provider = connected_session\<lparr>provider := None\<rparr>"

text \<open>
  A chain on which the address holds something other than the Counter contract, so that
  ethers cannot decode what the two reads return; and a node that does not answer.
\<close>

definition decode_error :: thrown where
  "decode_error =
     JsError ''could not decode result data (value=0x, code=BAD_DATA, version=6.13.0)'' None"

definition wallet_wrong_contract :: env where
  "wallet_wrong_contract =
     wallet_on_sepolia
       \<lparr>contract_getCounter := (\<lambda>c. Inl decode_error),
        contract_owner := (\<lambda>c. Inl decode_error)\<rparr>"

definition node_error :: thrown where
  "node_error = JsError ''missing response for request'' None"

definition wallet_node_down :: env where
  "wallet_node_down =
     wallet_on_sepolia
       \<lparr>contract_getCounter := (\<lambda>c. Inl node_error),
        contract_owner := (\<lambda>c. Inl node_error)\<rparr>"

section \<open>Basic facts\<close>

lemmas connect_unfold =
  connect_def connect_body_def switch_to_sepolia_def rederive_def verify_and_bind_def Let_def
  SEPOLIA_CHAIN_ID_def SEPOLIA_CHAIN_ID_DECIMAL_def

lemmas world_defs =
  wallet_on_sepolia_def wallet_without_code_def wallet_request_pending_def wallet_on_mainnet_def
  wallet_user_rejects_def wallet_unknown_chain_pending_def wallet_switch_pending_def
  wallet_switch_declined_def wallet_switch_rejected_def wallet_switch_rejects_null_def
  wallet_adds_without_switching_def wallet_switched_without_code_def
  sepolia_def mainnet_def pending_error_def user_rejected_def unknown_chain_pending_def
  switch_pending_def unknown_chain_def counterService_def connected_session_def
  session_without_provider_def decode_error_def wallet_wrong_contract_def node_error_def
  wallet_node_down_def

lemmas message_defs =
  not_deployed_message_def not_deployed_head_def not_deployed_mid_def not_deployed_chain_def
  not_deployed_tail_def

lemma show_sepolia: "show_nat 11155111 = ''11155111''"
  by (simp add: show_nat.simps)

lemma show_mainnet: "show_nat (Suc 0) = ''1''"
  by (simp add: show_nat.simps)

lemma not_deployed_sepolia_not_pending:
  "\<not> str_includes (not_deployed_message ''0x5FbDB2315678afecb367f032d93F642f64180aa3''
        ''sepolia'' 11155111) ''already pending''"
  by (simp add: message_defs show_sepolia)

lemma not_deployed_mainnet_not_pending:
  "\<not> str_includes (not_deployed_message ''0x5FbDB2315678afecb367f032d93F642f64180aa3''
        ''mainnet'' 1) ''already pending''"
  by (simp add: message_defs show_mainnet)

text \<open>What each stage of \<open>connect\<close> does to the Session.\<close>

lemma verify_and_bind_handles:
  "verify_and_bind e nw p sg s = (r, s', tr) \<Longrightarrow>
     provider s' = provider s \<and> signer s' = signer s"
  by (auto simp: verify_and_bind_def split: sum.splits if_splits)

lemma verify_and_bind_Inl: "verify_and_bind e nw p sg s = (Inl t, s', tr) \<Longrightarrow> s' = s"
  by (auto simp: verify_and_bind_def split: sum.splits if_splits)

lemma verify_and_bind_Inr:
  "verify_and_bind e nw p sg s = (Inr u, s', tr) \<Longrightarrow>
     s' = s\<lparr>contract := Some (Contract (contractAddress e) sg)\<rparr>"
  by (auto simp: verify_and_bind_def split: sum.splits if_splits)

lemma rederive_session:
  "rederive e s = (r, s', tr) \<Longrightarrow>
     contract s' = contract s \<and> provider s' = Some (second_provider e)"
  by (auto simp: rederive_def Let_def split: sum.splits)

lemma connect_body_Inl: "connect_body e s = (Inl t, s', tr) \<Longrightarrow> contract s' = contract s"
  by (auto simp: connect_body_def Let_def
      split: option.splits sum.splits prod.splits if_splits
      dest!: verify_and_bind_Inl rederive_session)

lemma connect_body_Inr: "connect_body e s = (Inr u, s', tr) \<Longrightarrow> contract s' \<noteq> None"
  by (auto simp: connect_body_def Let_def
      split: option.splits sum.splits prod.splits if_splits
      dest!: verify_and_bind_Inr rederive_session)

lemma connect_body_provider:
  "connect_body e s = (r, s', tr) \<Longrightarrow> request e Eth_requestAccounts = None \<Longrightarrow>
     provider s' = Some (first_provider e) \<or> provider s' = Some (second_provider e)"
  by (auto simp: connect_body_def Let_def
      split: option.splits sum.splits prod.splits if_splits
      dest!: verify_and_bind_handles rederive_session)

lemma connect_body_early:
  "request e Eth_requestAccounts = Some t \<Longrightarrow>
     connect_body e s = (Inl t, s, [(Request Eth_requestAccounts, Some t)])"
  by (simp add: connect_body_def)

lemma connect_session:
  "has_window e \<Longrightarrow> has_ethereum e \<Longrightarrow>
     fst (snd (connect e s)) = fst (snd (connect_body e s))"
  by (simp add: connect_def split: prod.splits sum.splits)

lemma connect_isConnected:
  "isConnected (fst (snd (connect e s))) = (isConnected s \<or> runs_through e s)"
proof (cases "has_window e \<and> has_ethereum e")
  case False
  then show ?thesis by (auto simp: connect_def runs_through_def)
next
  case True
  obtain r s' tr where b: "connect_body e s = (r, s', tr)" by (cases "connect_body e s")
  show ?thesis
  proof (cases r)
    case (Inl t)
    with b True show ?thesis
      using connect_body_Inl [of e s t s' tr]
      by (simp add: connect_session runs_through_def isConnected_def)
  next
    case (Inr u)
    with b True show ?thesis
      using connect_body_Inr [of e s u s' tr]
      by (simp add: connect_session runs_through_def isConnected_def)
  qed
qed

text \<open>No other method assigns a field.\<close>

lemma other_methods_keep_session:
  "fst (snd (getCounter e s)) = s" "fst (snd (submit m e s)) = s"
  "fst (snd (getOwner e s)) = s" "fst (snd (getWalletAddress e s)) = s"
  "fst (snd (getNetwork e s)) = s"
  by (simp_all add: getCounter_def submit_def getOwner_def getWalletAddress_def getNetwork_def
      split: option.splits sum.splits)

lemma exec_isConnected:
  "isConnected (exec op e s) = (isConnected s \<or> (op = OpConnect \<and> runs_through e s))"
  by (cases op)
    (simp_all add: connect_isConnected other_methods_keep_session incrementCounter_def
      decrementCounter_def resetCounter_def)

lemma run_isConnected:
  "isConnected (run calls s) = (isConnected s \<or> some_connect_ran_through calls s)"
proof (induction calls arbitrary: s)
  case Nil
  show ?case by simp
next
  case (Cons c calls)
  obtain op e where c: "c = (op, e)" by (cases c)
  show ?case
    unfolding c by (simp add: Cons.IH exec_isConnected disj_assoc)
qed

lemma connect_guarded:
  "has_window e \<Longrightarrow> has_ethereum e \<Longrightarrow>
     connect e s =
       (case fst (connect_body e s) of Inl err \<Rightarrow> connect_catch err | Inr u \<Rightarrow> Inr (),
        snd (connect_body e s))"
  by (simp add: connect_def split: prod.splits sum.splits)

lemma connect_unguarded:
  "\<not> (has_window e \<and> has_ethereum e) \<Longrightarrow>
     \<exists>m. connect e s = (Inl (JsError m None), s, []) \<and> \<not> str_includes m ''already pending''"
  by (auto simp: connect_def msg_browser_only_def msg_no_metamask_def)

lemma switch_to_sepolia_runs:
  "(request e (Wallet_switchEthereumChain SEPOLIA_CHAIN_ID) = None
      \<and> switch_to_sepolia e
          = (Inr (), [(Request (Wallet_switchEthereumChain SEPOLIA_CHAIN_ID), None)]))
   \<or> (\<exists>t. request e (Wallet_switchEthereumChain SEPOLIA_CHAIN_ID) = Some t
         \<and> code_of t = Some 4902
         \<and> request e (Wallet_addEthereumChain sepolia_parameter) = None
         \<and> switch_to_sepolia e
             = (Inr (), [(Request (Wallet_switchEthereumChain SEPOLIA_CHAIN_ID), Some t),
                         (Request (Wallet_addEthereumChain sepolia_parameter), None)]))
   \<or> (\<exists>t u. request e (Wallet_switchEthereumChain SEPOLIA_CHAIN_ID) = Some t
         \<and> code_of t = Some 4902
         \<and> request e (Wallet_addEthereumChain sepolia_parameter) = Some u
         \<and> switch_to_sepolia e
             = (Inl u, [(Request (Wallet_switchEthereumChain SEPOLIA_CHAIN_ID), Some t),
                        (Request (Wallet_addEthereumChain sepolia_parameter), Some u)]))
   \<or> (\<exists>t. request e (Wallet_switchEthereumChain SEPOLIA_CHAIN_ID) = Some t
         \<and> code_of t \<noteq> Some 4902 \<and> read_code t = Inr (code_of t)
         \<and> switch_to_sepolia e
             = (Inl t, [(Request (Wallet_switchEthereumChain SEPOLIA_CHAIN_ID), Some t)]))
   \<or> (\<exists>t te. request e (Wallet_switchEthereumChain SEPOLIA_CHAIN_ID) = Some t
         \<and> read_code t = Inl te
         \<and> switch_to_sepolia e
             = (Inl te, [(Request (Wallet_switchEthereumChain SEPOLIA_CHAIN_ID), Some t)]))"
proof (cases "request e (Wallet_switchEthereumChain SEPOLIA_CHAIN_ID)")
  case None
  then show ?thesis by (simp add: switch_to_sepolia_def)
next
  case (Some t)
  then show ?thesis
    by (cases t) (simp_all add: switch_to_sepolia_def split: option.splits)
qed

lemma read_code_Inl_iff:
  "read_code t = Inl te \<longleftrightarrow>
     (t = JsNull \<and> te = JsError msg_code_of_null None)
     \<or> (t = JsUndefined \<and> te = JsError msg_code_of_undefined None)"
  by (cases t) auto

lemma type_error_not_pending:
  "\<not> str_includes msg_code_of_null ''already pending''"
  "\<not> str_includes msg_code_of_undefined ''already pending''"
  by (simp_all add: msg_code_of_null_def msg_code_of_undefined_def)

lemma read_code_Inl:
  "read_code t = Inl te \<Longrightarrow>
     (t = JsNull \<or> t = JsUndefined) \<and> code_of t = None
     \<and> (\<exists>m. te = JsError m None \<and> \<not> str_includes m ''already pending'')"
  by (auto simp: read_code_Inl_iff type_error_not_pending)

lemma read_code_Inr: "read_code t = Inr c \<Longrightarrow> t \<noteq> JsNull \<and> t \<noteq> JsUndefined \<and> c = code_of t"
  by (cases t) simp_all

lemma rederive_runs:
  "(\<exists>u. provider_getSigner e (second_provider e) = Inl u
        \<and> rederive e s
            = (Inl u, s\<lparr>provider := Some (second_provider e)\<rparr>,
               [(NewBrowserProvider (second_provider e), None),
                (GetSigner (second_provider e), Some u)]))
   \<or> (\<exists>sg u. provider_getSigner e (second_provider e) = Inr sg
         \<and> provider_getNetwork e (second_provider e) = Inl u
         \<and> rederive e s
             = (Inl u, s\<lparr>provider := Some (second_provider e), signer := Some sg\<rparr>,
                [(NewBrowserProvider (second_provider e), None),
                 (GetSigner (second_provider e), None),
                 (GetNetwork (second_provider e), Some u)]))
   \<or> (\<exists>sg nw. provider_getSigner e (second_provider e) = Inr sg
         \<and> provider_getNetwork e (second_provider e) = Inr nw
         \<and> rederive e s
             = (Inr (second_provider e, sg),
                s\<lparr>provider := Some (second_provider e), signer := Some sg\<rparr>,
                [(NewBrowserProvider (second_provider e), None),
                 (GetSigner (second_provider e), None),
                 (GetNetwork (second_provider e), None)]))"
  by (simp add: rederive_def Let_def split: sum.splits)

lemma verify_and_bind_runs:
  "(\<exists>u. provider_getCode e p (contractAddress e) = Inl u
        \<and> verify_and_bind e nw p sg s
            = (Inl u, s, [(GetCode p (contractAddress e), Some u)]))
   \<or> (provider_getCode e p (contractAddress e) = Inr ''0x''
        \<and> verify_and_bind e nw p sg s
            = (Inl (JsError (not_deployed_message (contractAddress e) (name nw) (chainId nw))
                      None),
               s, [(GetCode p (contractAddress e), None)]))
   \<or> (\<exists>code. provider_getCode e p (contractAddress e) = Inr code \<and> code \<noteq> ''0x''
        \<and> verify_and_bind e nw p sg s
            = (Inr (), s\<lparr>contract := Some (Contract (contractAddress e) sg)\<rparr>,
               [(GetCode p (contractAddress e), None),
                (NewContract (contractAddress e) sg, None)]))"
  by (simp add: verify_and_bind_def split: sum.splits)

text \<open>The \<^verbatim>\<open>try\<close> block in terms of its three stages.\<close>

lemma connect_body_runs:
  "(\<exists>t. request e Eth_requestAccounts = Some t
        \<and> connect_body e s = (Inl t, s, [(Request Eth_requestAccounts, Some t)]))
   \<or> (\<exists>t. request e Eth_requestAccounts = None
        \<and> provider_getSigner e (first_provider e) = Inl t
        \<and> connect_body e s
            = (Inl t, s\<lparr>provider := Some (first_provider e)\<rparr>,
               [(Request Eth_requestAccounts, None),
                (NewBrowserProvider (first_provider e), None),
                (GetSigner (first_provider e), Some t)]))
   \<or> (\<exists>sg t. request e Eth_requestAccounts = None
        \<and> provider_getSigner e (first_provider e) = Inr sg
        \<and> provider_getNetwork e (first_provider e) = Inl t
        \<and> connect_body e s
            = (Inl t, s\<lparr>provider := Some (first_provider e), signer := Some sg\<rparr>,
               [(Request Eth_requestAccounts, None),
                (NewBrowserProvider (first_provider e), None),
                (GetSigner (first_provider e), None),
                (GetNetwork (first_provider e), Some t)]))
   \<or> (\<exists>sg nw. request e Eth_requestAccounts = None
        \<and> provider_getSigner e (first_provider e) = Inr sg
        \<and> provider_getNetwork e (first_provider e) = Inr nw
        \<and> chainId nw = SEPOLIA_CHAIN_ID_DECIMAL
        \<and> (\<exists>rb s' tr3.
              verify_and_bind e nw (first_provider e) sg
                  (s\<lparr>provider := Some (first_provider e), signer := Some sg\<rparr>)
                = (rb, s', tr3)
              \<and> connect_body e s
                  = (rb, s',
                     [(Request Eth_requestAccounts, None),
                      (NewBrowserProvider (first_provider e), None),
                      (GetSigner (first_provider e), None),
                      (GetNetwork (first_provider e), None)] @ tr3)))
   \<or> (\<exists>sg nw. request e Eth_requestAccounts = None
        \<and> provider_getSigner e (first_provider e) = Inr sg
        \<and> provider_getNetwork e (first_provider e) = Inr nw
        \<and> chainId nw \<noteq> SEPOLIA_CHAIN_ID_DECIMAL
        \<and> ((\<exists>t tr1. switch_to_sepolia e = (Inl t, tr1)
               \<and> connect_body e s
                   = (Inl t, s\<lparr>provider := Some (first_provider e), signer := Some sg\<rparr>,
                      [(Request Eth_requestAccounts, None),
                       (NewBrowserProvider (first_provider e), None),
                       (GetSigner (first_provider e), None),
                       (GetNetwork (first_provider e), None)] @ tr1))
            \<or> (\<exists>tr1 t s3 tr2. switch_to_sepolia e = (Inr (), tr1)
               \<and> rederive e (s\<lparr>provider := Some (first_provider e), signer := Some sg\<rparr>)
                   = (Inl t, s3, tr2)
               \<and> connect_body e s
                   = (Inl t, s3,
                      [(Request Eth_requestAccounts, None),
                       (NewBrowserProvider (first_provider e), None),
                       (GetSigner (first_provider e), None),
                       (GetNetwork (first_provider e), None)] @ tr1 @ tr2))
            \<or> (\<exists>tr1 p2 sg2 s3 tr2 rb s' tr3. switch_to_sepolia e = (Inr (), tr1)
               \<and> rederive e (s\<lparr>provider := Some (first_provider e), signer := Some sg\<rparr>)
                   = (Inr (p2, sg2), s3, tr2)
               \<and> verify_and_bind e nw p2 sg2 s3 = (rb, s', tr3)
               \<and> connect_body e s
                   = (rb, s',
                      [(Request Eth_requestAccounts, None),
                       (NewBrowserProvider (first_provider e), None),
                       (GetSigner (first_provider e), None),
                       (GetNetwork (first_provider e), None)] @ tr1 @ tr2 @ tr3))))"
  by (auto simp: connect_body_def Let_def split: option.splits sum.splits prod.splits)


lemma switch_to_sepolia_Inr:
  "switch_to_sepolia e = (Inr u, tr1) \<Longrightarrow>
     (request e (Wallet_switchEthereumChain SEPOLIA_CHAIN_ID) = None
        \<and> tr1 = [(Request (Wallet_switchEthereumChain SEPOLIA_CHAIN_ID), None)])
     \<or> (\<exists>t. request e (Wallet_switchEthereumChain SEPOLIA_CHAIN_ID) = Some t
           \<and> code_of t = Some 4902
           \<and> request e (Wallet_addEthereumChain sepolia_parameter) = None
           \<and> tr1 = [(Request (Wallet_switchEthereumChain SEPOLIA_CHAIN_ID), Some t),
                     (Request (Wallet_addEthereumChain sepolia_parameter), None)])"
  using switch_to_sepolia_runs [of e] by auto

lemma switch_to_sepolia_Inl:
  "switch_to_sepolia e = (Inl u, tr1) \<Longrightarrow>
     (request e (Wallet_switchEthereumChain SEPOLIA_CHAIN_ID) = Some u
        \<and> code_of u \<noteq> Some 4902 \<and> read_code u = Inr (code_of u)
        \<and> tr1 = [(Request (Wallet_switchEthereumChain SEPOLIA_CHAIN_ID), Some u)])
     \<or> (\<exists>t. request e (Wallet_switchEthereumChain SEPOLIA_CHAIN_ID) = Some t
           \<and> read_code t = Inl u
           \<and> tr1 = [(Request (Wallet_switchEthereumChain SEPOLIA_CHAIN_ID), Some t)])
     \<or> (\<exists>t. request e (Wallet_switchEthereumChain SEPOLIA_CHAIN_ID) = Some t
           \<and> code_of t = Some 4902
           \<and> request e (Wallet_addEthereumChain sepolia_parameter) = Some u
           \<and> tr1 = [(Request (Wallet_switchEthereumChain SEPOLIA_CHAIN_ID), Some t),
                     (Request (Wallet_addEthereumChain sepolia_parameter), Some u)])"
  using switch_to_sepolia_runs [of e] by auto

lemma rederive_Inl:
  "rederive e s = (Inl u, s3, tr2) \<Longrightarrow>
     (provider_getSigner e (second_provider e) = Inl u
        \<and> s3 = s\<lparr>provider := Some (second_provider e)\<rparr>
        \<and> tr2 = [(NewBrowserProvider (second_provider e), None),
                  (GetSigner (second_provider e), Some u)])
     \<or> (\<exists>sg. provider_getSigner e (second_provider e) = Inr sg
           \<and> provider_getNetwork e (second_provider e) = Inl u
           \<and> s3 = s\<lparr>provider := Some (second_provider e), signer := Some sg\<rparr>
           \<and> tr2 = [(NewBrowserProvider (second_provider e), None),
                     (GetSigner (second_provider e), None),
                     (GetNetwork (second_provider e), Some u)])"
  using rederive_runs [of e s] by auto

lemma rederive_Inr:
  "rederive e s = (Inr (p2, sg2), s3, tr2) \<Longrightarrow>
     p2 = second_provider e
     \<and> provider_getSigner e (second_provider e) = Inr sg2
     \<and> (\<exists>nw2. provider_getNetwork e (second_provider e) = Inr nw2)
     \<and> s3 = s\<lparr>provider := Some (second_provider e), signer := Some sg2\<rparr>
     \<and> tr2 = [(NewBrowserProvider (second_provider e), None),
               (GetSigner (second_provider e), None),
               (GetNetwork (second_provider e), None)]"
  using rederive_runs [of e s] by auto

lemma verify_and_bind_inv:
  "verify_and_bind e nw p sg s = (rb, s', tr3) \<Longrightarrow>
     (\<exists>u. provider_getCode e p (contractAddress e) = Inl u \<and> rb = Inl u \<and> s' = s
          \<and> tr3 = [(GetCode p (contractAddress e), Some u)])
     \<or> (provider_getCode e p (contractAddress e) = Inr ''0x''
          \<and> rb = Inl (JsError (not_deployed_message (contractAddress e) (name nw) (chainId nw))
                        None)
          \<and> s' = s \<and> tr3 = [(GetCode p (contractAddress e), None)])
     \<or> (\<exists>code. provider_getCode e p (contractAddress e) = Inr code \<and> code \<noteq> ''0x''
          \<and> rb = Inr () \<and> s' = s\<lparr>contract := Some (Contract (contractAddress e) sg)\<rparr>
          \<and> tr3 = [(GetCode p (contractAddress e), None),
                    (NewContract (contractAddress e) sg, None)])"
  using verify_and_bind_runs [of e p nw sg s] by auto

lemmas stage_inv =
  switch_to_sepolia_Inr switch_to_sepolia_Inl rederive_Inl rederive_Inr verify_and_bind_inv

lemma connect_body_last:
  assumes "connect_body e s = (rb, s', tr)"
  shows "tr \<noteq> [] \<and> (snd (last tr) = Some (JsError m c) \<longrightarrow> rb = Inl (JsError m c))"
  using connect_body_runs [of e s] assms by (auto simp: read_code_Inl_iff dest!: stage_inv)

lemma connect_body_thrown:
  assumes "connect_body e s = (rb, s', tr)" and "(cl, Some t) \<in> set tr"
  shows "rb = Inl t
     \<or> (cl = Request (Wallet_switchEthereumChain SEPOLIA_CHAIN_ID) \<and> code_of t = Some 4902)
     \<or> (\<exists>te. read_code t = Inl te \<and> rb = Inl te)"
  using connect_body_runs [of e s] assms by (auto dest!: stage_inv)

lemma connect_catch_Inr:
  "connect_catch t = Inr u \<longleftrightarrow> (\<exists>m c. t = JsError m c \<and> str_includes m ''already pending'')"
  by (cases t) auto

lemma connect_body_switch_failed:
  assumes "connect_body e s = (rb, s', tr)"
    and "(Request (Wallet_switchEthereumChain cid), Some t) \<in> set tr"
  shows "(code_of t = Some 4902 \<longrightarrow>
        (Request (Wallet_addEthereumChain sepolia_parameter),
         request e (Wallet_addEthereumChain sepolia_parameter)) \<in> set tr
        \<and> (request e (Wallet_addEthereumChain sepolia_parameter) = None \<longrightarrow>
             hd (after_chain_requests tr) = (NewBrowserProvider (second_provider e), None)))
     \<and> (code_of t \<noteq> Some 4902 \<longrightarrow> (Request (Wallet_addEthereumChain d), out) \<notin> set tr)
     \<and> (code_of t \<noteq> Some 4902 \<and> t \<noteq> JsNull \<and> t \<noteq> JsUndefined \<longrightarrow> rb = Inl t)
     \<and> (read_code t = Inl te \<longrightarrow> rb = Inl te)"
  using connect_body_runs [of e s] assms
  by (auto simp: after_chain_requests_def read_code_Inl_iff dest!: stage_inv)

lemma connect_body_rederived:
  assumes "connect_body e s = (rb, s', tr)"
    and "(Request (Wallet_switchEthereumChain cid), None) \<in> set tr
     \<or> (Request (Wallet_addEthereumChain d), None) \<in> set tr"
  shows "provider s' = Some (second_provider e)
     \<and> take 2 (after_chain_requests tr)
         = [(NewBrowserProvider (second_provider e), None),
            (GetSigner (second_provider e),
             thrown_of (provider_getSigner e (second_provider e)))]
     \<and> (provider_getSigner e (second_provider e) = Inr sg \<longrightarrow>
          signer s' = Some sg
          \<and> take 3 (after_chain_requests tr)
              = [(NewBrowserProvider (second_provider e), None),
                 (GetSigner (second_provider e), None),
                 (GetNetwork (second_provider e),
                  thrown_of (provider_getNetwork e (second_provider e)))])"
  using connect_body_runs [of e s] assms
  by (auto simp: after_chain_requests_def dest!: stage_inv)

lemma connect_body_on_sepolia:
  assumes "connect_body e s = (rb, s', tr)"
    and "provider_getNetwork e (first_provider e) = Inr nw" and "chainId nw = 11155111"
  shows "(Request (Wallet_switchEthereumChain cid), out) \<notin> set tr
     \<and> (Request (Wallet_addEthereumChain d), out') \<notin> set tr"
  using connect_body_runs [of e s] assms
  by (auto simp: SEPOLIA_CHAIN_ID_DECIMAL_def dest!: stage_inv)

lemma connect_traced:
  assumes "connect e s = (r, s', tr)" and "tr \<noteq> []"
  shows "\<exists>rb. connect_body e s = (rb, s', tr)
     \<and> r = (case rb of Inl err \<Rightarrow> connect_catch err | Inr u \<Rightarrow> Inr ())"
proof (cases "has_window e \<and> has_ethereum e")
  case False
  with assms show ?thesis by (auto simp: connect_def split: if_splits)
next
  case True
  with assms show ?thesis by (cases "connect_body e s") (simp add: connect_guarded)
qed

text \<open>What \<open>connect\<close> returns on the fresh Session in each of the concrete worlds.\<close>

lemma connect_on_sepolia:
  "connect wallet_on_sepolia counterService
     = (Inr (),
        \<lparr>contract = Some (Contract ''0x5FbDB2315678afecb367f032d93F642f64180aa3''
                           (JsonRpcSigner 1)),
          provider = Some (BrowserProvider 1), signer = Some (JsonRpcSigner 1)\<rparr>,
        [(Request Eth_requestAccounts, None), (NewBrowserProvider (BrowserProvider 1), None),
         (GetSigner (BrowserProvider 1), None), (GetNetwork (BrowserProvider 1), None),
         (GetCode (BrowserProvider 1) ''0x5FbDB2315678afecb367f032d93F642f64180aa3'', None),
         (NewContract ''0x5FbDB2315678afecb367f032d93F642f64180aa3'' (JsonRpcSigner 1), None)])"
  by (simp add: connect_unfold world_defs)

lemma connect_on_mainnet:
  "connect wallet_on_mainnet counterService
     = (Inr (),
        \<lparr>contract = Some (Contract ''0x5FbDB2315678afecb367f032d93F642f64180aa3''
                           (JsonRpcSigner 1)),
          provider = Some (BrowserProvider 2), signer = Some (JsonRpcSigner 1)\<rparr>,
        [(Request Eth_requestAccounts, None), (NewBrowserProvider (BrowserProvider 1), None),
         (GetSigner (BrowserProvider 1), None), (GetNetwork (BrowserProvider 1), None),
         (Request (Wallet_switchEthereumChain ''0xaa36a7''), None),
         (NewBrowserProvider (BrowserProvider 2), None),
         (GetSigner (BrowserProvider 2), None), (GetNetwork (BrowserProvider 2), None),
         (GetCode (BrowserProvider 2) ''0x5FbDB2315678afecb367f032d93F642f64180aa3'', None),
         (NewContract ''0x5FbDB2315678afecb367f032d93F642f64180aa3'' (JsonRpcSigner 1), None)])"
  by (simp add: connect_unfold world_defs)

lemma connect_adds_without_switching:
  "connect wallet_adds_without_switching counterService
     = (Inr (),
        \<lparr>contract = Some (Contract ''0x5FbDB2315678afecb367f032d93F642f64180aa3''
                           (JsonRpcSigner 1)),
          provider = Some (BrowserProvider 2), signer = Some (JsonRpcSigner 1)\<rparr>,
        [(Request Eth_requestAccounts, None), (NewBrowserProvider (BrowserProvider 1), None),
         (GetSigner (BrowserProvider 1), None), (GetNetwork (BrowserProvider 1), None),
         (Request (Wallet_switchEthereumChain ''0xaa36a7''), Some unknown_chain),
         (Request (Wallet_addEthereumChain sepolia_parameter), None),
         (NewBrowserProvider (BrowserProvider 2), None),
         (GetSigner (BrowserProvider 2), None), (GetNetwork (BrowserProvider 2), None),
         (GetCode (BrowserProvider 2) ''0x5FbDB2315678afecb367f032d93F642f64180aa3'', None),
         (NewContract ''0x5FbDB2315678afecb367f032d93F642f64180aa3'' (JsonRpcSigner 1), None)])"
  by (simp add: connect_unfold world_defs)

lemma connect_switch_rejected:
  "connect wallet_switch_rejected counterService
     = (Inl user_rejected,
        \<lparr>contract = None, provider = Some (BrowserProvider 1),
          signer = Some (JsonRpcSigner 1)\<rparr>,
        [(Request Eth_requestAccounts, None), (NewBrowserProvider (BrowserProvider 1), None),
         (GetSigner (BrowserProvider 1), None), (GetNetwork (BrowserProvider 1), None),
         (Request (Wallet_switchEthereumChain ''0xaa36a7''), Some user_rejected)])"
  by (simp add: connect_unfold world_defs)

lemma connect_switch_pending:
  "connect wallet_switch_pending counterService
     = (Inr (),
        \<lparr>contract = None, provider = Some (BrowserProvider 1),
          signer = Some (JsonRpcSigner 1)\<rparr>,
        [(Request Eth_requestAccounts, None), (NewBrowserProvider (BrowserProvider 1), None),
         (GetSigner (BrowserProvider 1), None), (GetNetwork (BrowserProvider 1), None),
         (Request (Wallet_switchEthereumChain ''0xaa36a7''), Some switch_pending)])"
  by (simp add: connect_unfold world_defs)

lemma connect_switch_declined:
  "connect wallet_switch_declined counterService
     = (Inl (JsError msg_connect_failed None),
        \<lparr>contract = None, provider = Some (BrowserProvider 1),
          signer = Some (JsonRpcSigner 1)\<rparr>,
        [(Request Eth_requestAccounts, None), (NewBrowserProvider (BrowserProvider 1), None),
         (GetSigner (BrowserProvider 1), None), (GetNetwork (BrowserProvider 1), None),
         (Request (Wallet_switchEthereumChain ''0xaa36a7''), Some (NonError (Some 4001)))])"
  by (simp add: connect_unfold world_defs)

lemma connect_switched_without_code:
  "connect wallet_switched_without_code counterService
     = (Inl (JsError (not_deployed_message ''0x5FbDB2315678afecb367f032d93F642f64180aa3''
                ''mainnet'' 1) None),
        \<lparr>contract = None, provider = Some (BrowserProvider 2),
          signer = Some (JsonRpcSigner 1)\<rparr>,
        [(Request Eth_requestAccounts, None), (NewBrowserProvider (BrowserProvider 1), None),
         (GetSigner (BrowserProvider 1), None), (GetNetwork (BrowserProvider 1), None),
         (Request (Wallet_switchEthereumChain ''0xaa36a7''), None),
         (NewBrowserProvider (BrowserProvider 2), None),
         (GetSigner (BrowserProvider 2), None), (GetNetwork (BrowserProvider 2), None),
         (GetCode (BrowserProvider 2) ''0x5FbDB2315678afecb367f032d93F642f64180aa3'', None)])"
  using not_deployed_mainnet_not_pending by (simp add: connect_unfold world_defs)

lemma connect_body_failed_session:
  assumes "connect_body e s = (Inl t, s', tr)" and "request e Eth_requestAccounts = None"
  shows "(provider_getSigner e (first_provider e) = Inl u \<longrightarrow>
           s' = s\<lparr>provider := Some (first_provider e)\<rparr>)
     \<and> (provider_getSigner e (first_provider e) = Inr sg \<longrightarrow>
           s' = s\<lparr>provider := Some (first_provider e), signer := Some sg\<rparr>
           \<or> (\<exists>u2. provider_getSigner e (second_provider e) = Inl u2
                 \<and> s' = s\<lparr>provider := Some (second_provider e), signer := Some sg\<rparr>)
           \<or> (\<exists>sg2. provider_getSigner e (second_provider e) = Inr sg2
                 \<and> s' = s\<lparr>provider := Some (second_provider e), signer := Some sg2\<rparr>))"
  using connect_body_runs [of e s] assms by (auto dest!: stage_inv)

section \<open>A failed connect and the Session\<close>

text \<open>
  C1, as stated, fails. With a wallet already on Sepolia and no code at the configured
  address, \<open>connect\<close> on the fresh Session throws the not-deployed Error to its caller,
  and the Session, whose provider and signer handles were absent, now holds both.
\<close>

theorem connect_not_all_or_nothing:
  "fst (connect wallet_without_code counterService)
     = Inl (JsError (not_deployed_message ''0x5FbDB2315678afecb367f032d93F642f64180aa3''
              ''sepolia'' 11155111) None)
   \<and> provider counterService = None
   \<and> provider (fst (snd (connect wallet_without_code counterService)))
       = Some (BrowserProvider 1)
   \<and> signer counterService = None
   \<and> signer (fst (snd (connect wallet_without_code counterService)))
       = Some (JsonRpcSigner 1)"
  using not_deployed_sepolia_not_pending
  by (simp add: connect_unfold world_defs)

text \<open>
  C1, amended. Whenever \<open>connect\<close> throws to its caller, the contract handle is the one
  the Session held before the call. The whole Session is as before when the failure is
  one of the two guards or the account request. Once the account request has succeeded
  the Session holds what the attempt stored before it failed: the first provider handle
  alone when the first signer request failed; otherwise the first provider handle and
  its signer, or the second provider handle with the first signer (the second signer
  request failed), or the second provider handle and its signer.
\<close>

theorem connect_failure_keeps_contract:
  assumes "connect e s = (Inl t, s', tr)"
  shows "contract s' = contract s
    \<and> (\<not> has_window e \<or> \<not> has_ethereum e \<or> request e Eth_requestAccounts \<noteq> None
         \<longrightarrow> s' = s)
    \<and> (has_window e \<and> has_ethereum e \<and> request e Eth_requestAccounts = None \<longrightarrow>
         (provider s' = Some (first_provider e) \<or> provider s' = Some (second_provider e))
         \<and> (provider_getSigner e (first_provider e) = Inl u \<longrightarrow>
              s' = s\<lparr>provider := Some (first_provider e)\<rparr>)
         \<and> (provider_getSigner e (first_provider e) = Inr sg \<longrightarrow>
              s' = s\<lparr>provider := Some (first_provider e), signer := Some sg\<rparr>
              \<or> (\<exists>u2. provider_getSigner e (second_provider e) = Inl u2
                    \<and> s' = s\<lparr>provider := Some (second_provider e), signer := Some sg\<rparr>)
              \<or> (\<exists>sg2. provider_getSigner e (second_provider e) = Inr sg2
                    \<and> s' = s\<lparr>provider := Some (second_provider e), signer := Some sg2\<rparr>)))"
proof (cases "has_window e \<and> has_ethereum e")
  case False
  with assms show ?thesis by (auto simp: connect_def split: if_splits)
next
  case True
  obtain r s2 tr2 where b: "connect_body e s = (r, s2, tr2)" by (cases "connect_body e s")
  from assms True b have s2: "s2 = s'" and r: "\<exists>v. r = Inl v"
    by (auto simp: connect_def split: sum.splits)
  from r obtain v where v: "r = Inl v" by blast
  from b v s2 have bv: "connect_body e s = (Inl v, s', tr2)" by simp
  have c: "contract s' = contract s"
    using connect_body_Inl [OF bv] .
  have early: "request e Eth_requestAccounts \<noteq> None \<Longrightarrow> s' = s"
    using bv by (auto simp: connect_body_early)
  have prov: "request e Eth_requestAccounts = None \<Longrightarrow>
      provider s' = Some (first_provider e) \<or> provider s' = Some (second_provider e)"
    using connect_body_provider [OF bv] by simp
  have late: "request e Eth_requestAccounts = None \<Longrightarrow>
      (provider_getSigner e (first_provider e) = Inl u \<longrightarrow>
           s' = s\<lparr>provider := Some (first_provider e)\<rparr>)
     \<and> (provider_getSigner e (first_provider e) = Inr sg \<longrightarrow>
           s' = s\<lparr>provider := Some (first_provider e), signer := Some sg\<rparr>
           \<or> (\<exists>u2. provider_getSigner e (second_provider e) = Inl u2
                 \<and> s' = s\<lparr>provider := Some (second_provider e), signer := Some sg\<rparr>)
           \<or> (\<exists>sg2. provider_getSigner e (second_provider e) = Inr sg2
                 \<and> s' = s\<lparr>provider := Some (second_provider e), signer := Some sg2\<rparr>))"
    using connect_body_failed_session [OF bv] by simp
  from c early prov late True show ?thesis by blast
qed

theorem connect_failure_keeps_contract_witness:
  "connect wallet_user_rejects counterService
     = (Inl user_rejected, counterService, [(Request Eth_requestAccounts, Some user_rejected)])
   \<and> fst (connect wallet_without_code counterService)
     = Inl (JsError (not_deployed_message ''0x5FbDB2315678afecb367f032d93F642f64180aa3''
              ''sepolia'' 11155111) None)
   \<and> fst (snd (connect wallet_without_code counterService))
     = \<lparr>contract = None, provider = Some (BrowserProvider 1),
        signer = Some (JsonRpcSigner 1)\<rparr>
   \<and> fst (snd (connect wallet_switched_without_code counterService))
     = \<lparr>contract = None, provider = Some (BrowserProvider 2),
        signer = Some (JsonRpcSigner 1)\<rparr>"
proof -
  have early: "connect wallet_user_rejects counterService
     = (Inl user_rejected, counterService, [(Request Eth_requestAccounts, Some user_rejected)])"
    by (simp add: connect_unfold world_defs)
  obtain s1 tr1 where late: "connect wallet_without_code counterService
     = (Inl (JsError (not_deployed_message ''0x5FbDB2315678afecb367f032d93F642f64180aa3''
              ''sepolia'' 11155111) None), s1, tr1)"
    using not_deployed_sepolia_not_pending by (simp add: connect_unfold world_defs)
  obtain s2 tr2 where switched: "connect wallet_switched_without_code counterService
     = (Inl (JsError (not_deployed_message ''0x5FbDB2315678afecb367f032d93F642f64180aa3''
              ''mainnet'' 1) None), s2, tr2)"
    by (simp add: connect_switched_without_code)
  have w1: "has_window wallet_without_code" "has_ethereum wallet_without_code"
    "request wallet_without_code Eth_requestAccounts = None"
    "provider_getSigner wallet_without_code (first_provider wallet_without_code)
      = Inr (JsonRpcSigner 1)"
    "provider_getSigner wallet_without_code (second_provider wallet_without_code)
      = Inr (JsonRpcSigner 1)"
    "first_provider wallet_without_code = BrowserProvider 1"
    "second_provider wallet_without_code = BrowserProvider 2"
    by (simp_all add: world_defs)
  have w2: "has_window wallet_switched_without_code" "has_ethereum wallet_switched_without_code"
    "request wallet_switched_without_code Eth_requestAccounts = None"
    "provider_getSigner wallet_switched_without_code
        (first_provider wallet_switched_without_code) = Inr (JsonRpcSigner 1)"
    "provider_getSigner wallet_switched_without_code
        (second_provider wallet_switched_without_code) = Inr (JsonRpcSigner 1)"
    "first_provider wallet_switched_without_code = BrowserProvider 1"
    "second_provider wallet_switched_without_code = BrowserProvider 2"
    by (simp_all add: world_defs)
  have p1: "provider s1 = Some (BrowserProvider 1)"
    using late not_deployed_sepolia_not_pending by (auto simp: connect_unfold world_defs)
  have p2: "provider s2 = Some (BrowserProvider 2)"
    using switched by (auto simp: connect_switched_without_code)
  from connect_failure_keeps_contract [OF late, of _ "JsonRpcSigner 1"] w1 p1
  have s1: "s1 = \<lparr>contract = None, provider = Some (BrowserProvider 1),
        signer = Some (JsonRpcSigner 1)\<rparr>"
    by (auto simp: counterService_def)
  from connect_failure_keeps_contract [OF switched, of _ "JsonRpcSigner 1"] w2 p2
  have s2: "s2 = \<lparr>contract = None, provider = Some (BrowserProvider 2),
        signer = Some (JsonRpcSigner 1)\<rparr>"
    by (auto simp: counterService_def)
  from connect_failure_keeps_contract [OF early] early late switched s1 s2
  show ?thesis by simp
qed

section \<open>isConnected over the life of the Session\<close>

text \<open>
  C2. The claim: \<open>isConnected\<close> is false on the fresh Session until a \<open>connect\<close>
  completes successfully, and true ever after. The code departs from it: when the
  account request is rejected with the wallet's "already pending" Error, \<open>connect\<close> on
  the fresh Session returns normally to its caller, as every successful \<open>connect\<close>
  does, and \<open>isConnected\<close> is still false afterwards.
\<close>

theorem pending_connect_returns_unconnected:
  "fst (connect wallet_request_pending counterService) = Inr ()
   \<and> \<not> isConnected (fst (snd (connect wallet_request_pending counterService)))"
  by (simp add: connect_unfold world_defs isConnected_def)

text \<open>
  The rest of the claim holds on the code. \<open>isConnected\<close> is a total predicate, true
  exactly when the contract handle is present; after any sequence of calls of the public
  methods it is true exactly when it was true before or some \<open>connect\<close> of the sequence
  ran through to the end of its \<^verbatim>\<open>try\<close> block, so no call sets it back to false.
\<close>

lemma isConnected_history:
  "isConnected s = (contract s \<noteq> None)
   \<and> isConnected (run calls s) = (isConnected s \<or> some_connect_ran_through calls s)
   \<and> isConnected (run calls counterService) = some_connect_ran_through calls counterService"
  using run_isConnected [of calls s] run_isConnected [of calls counterService]
  by (simp add: isConnected_def counterService_def)

lemma isConnected_history_example:
  "\<not> isConnected (run [(OpGetCounter, wallet_on_sepolia), (OpConnect, wallet_request_pending),
         (OpConnect, wallet_without_code)] counterService)
   \<and> isConnected (run [(OpConnect, wallet_request_pending), (OpConnect, wallet_on_sepolia),
         (OpIncrementCounter, wallet_on_sepolia), (OpConnect, wallet_without_code)]
         counterService)"
proof -
  have a: "\<not> some_connect_ran_through [(OpGetCounter, wallet_on_sepolia),
      (OpConnect, wallet_request_pending), (OpConnect, wallet_without_code)] counterService"
    using not_deployed_sepolia_not_pending
    by (simp add: runs_through_def getCounter_def connect_unfold world_defs)
  have b: "some_connect_ran_through [(OpConnect, wallet_request_pending),
      (OpConnect, wallet_on_sepolia), (OpIncrementCounter, wallet_on_sepolia),
      (OpConnect, wallet_without_code)] counterService"
    by (simp add: runs_through_def connect_unfold world_defs)
  from a b
    isConnected_history [of counterService "[(OpGetCounter, wallet_on_sepolia),
      (OpConnect, wallet_request_pending), (OpConnect, wallet_without_code)]"]
    isConnected_history [of counterService "[(OpConnect, wallet_request_pending),
      (OpConnect, wallet_on_sepolia), (OpIncrementCounter, wallet_on_sepolia),
      (OpConnect, wallet_without_code)]"]
  show ?thesis by blast
qed

section \<open>Calls on a Session that was never connected\<close>

text \<open>
  C4. On the Session as it is created, with all three handles absent,
  \<open>getCounter\<close>, \<open>getOwner\<close>, \<open>getWalletAddress\<close>, \<open>getNetwork\<close>,
  \<open>incrementCounter\<close>, \<open>decrementCounter\<close> and \<open>resetCounter\<close> each throw a
  NotConnectedError, leave the Session as it is and make no call on a contract, signer
  or provider, whatever the world would answer.
\<close>

theorem never_connected_all_fail:
  "(\<exists>t. getCounter e counterService = (Inl t, counterService, []) \<and> is_NotConnectedError t)
   \<and> (\<exists>t. getOwner e counterService = (Inl t, counterService, []) \<and> is_NotConnectedError t)
   \<and> (\<exists>t. getWalletAddress e counterService = (Inl t, counterService, [])
        \<and> is_NotConnectedError t)
   \<and> (\<exists>t. getNetwork e counterService = (Inl t, counterService, [])
        \<and> is_NotConnectedError t)
   \<and> (\<exists>t. incrementCounter e counterService = (Inl t, counterService, [])
        \<and> is_NotConnectedError t)
   \<and> (\<exists>t. decrementCounter e counterService = (Inl t, counterService, [])
        \<and> is_NotConnectedError t)
   \<and> (\<exists>t. resetCounter e counterService = (Inl t, counterService, [])
        \<and> is_NotConnectedError t)"
  by (simp add: getCounter_def getOwner_def getWalletAddress_def getNetwork_def
      incrementCounter_def decrementCounter_def resetCounter_def submit_def
      counterService_def is_NotConnectedError_def)

section \<open>The "already pending" accommodation\<close>

text \<open>
  C3, as stated, fails. A wallet on mainnet refuses the switch with an Error of code
  4902 whose message contains "already pending"; the handler of lines 52 to 75 answers it
  with the add-chain request, which the user declines. A step of this execution threw an
  Error whose message contains "already pending", and \<open>connect\<close> throws the user's
  rejection to its caller.
\<close>

theorem pending_switch_error_not_swallowed:
  "connect wallet_unknown_chain_pending counterService
     = (Inl user_rejected,
        \<lparr>contract = None, provider = Some (BrowserProvider 1),
          signer = Some (JsonRpcSigner 1)\<rparr>,
        [(Request Eth_requestAccounts, None), (NewBrowserProvider (BrowserProvider 1), None),
         (GetSigner (BrowserProvider 1), None), (GetNetwork (BrowserProvider 1), None),
         (Request (Wallet_switchEthereumChain ''0xaa36a7''), Some unknown_chain_pending),
         (Request (Wallet_addEthereumChain sepolia_parameter), Some user_rejected)])
   \<and> str_includes (message unknown_chain_pending) ''already pending''"
  by (simp add: connect_unfold world_defs)

text \<open>
  C3, amended. When the failure that ends the \<^verbatim>\<open>try\<close> block (the failure of the last
  call made, or the failure the block ends with) is an Error whose message contains
  "already pending", \<open>connect\<close> returns normally. It returns normally only when the
  block ran through or ended with such an Error; and in an execution that returns
  normally, every call that threw either threw such an Error or is the switch request
  failing with code 4902, which the add-chain fallback handles.
\<close>

theorem already_pending_swallowed:
  assumes "connect e s = (r, s', tr)"
  shows "(tr \<noteq> [] \<and> snd (last tr) = Some (JsError m c) \<and> str_includes m ''already pending''
            \<longrightarrow> r = Inr ())
    \<and> (has_window e \<and> has_ethereum e \<and> fst (connect_body e s) = Inl (JsError m c)
          \<and> str_includes m ''already pending'' \<longrightarrow> r = Inr ())
    \<and> (r = Inr () \<longrightarrow>
          fst (connect_body e s) = Inr ()
          \<or> (\<exists>m' c'. fst (connect_body e s) = Inl (JsError m' c')
                \<and> str_includes m' ''already pending''))
    \<and> (r = Inr () \<and> (cl, Some t) \<in> set tr \<longrightarrow>
          (\<exists>m' c'. t = JsError m' c' \<and> str_includes m' ''already pending'')
          \<or> (cl = Request (Wallet_switchEthereumChain SEPOLIA_CHAIN_ID)
               \<and> code_of t = Some 4902))"
proof (cases "has_window e \<and> has_ethereum e")
  case False
  from connect_unguarded [OF False, of s] assms False show ?thesis by auto
next
  case True
  obtain rb sb trb where b: "connect_body e s = (rb, sb, trb)" by (cases "connect_body e s")
  from assms True b have tr: "trb = tr"
    and r: "r = (case rb of Inl err \<Rightarrow> connect_catch err | Inr u \<Rightarrow> Inr ())"
    by (simp_all add: connect_guarded)
  have one: "tr \<noteq> [] \<and> snd (last tr) = Some (JsError m c) \<and> str_includes m ''already pending''
      \<longrightarrow> r = Inr ()"
    using connect_body_last [OF b, of m c] tr r by auto
  have two: "fst (connect_body e s) = Inl (JsError m c) \<and> str_includes m ''already pending''
      \<longrightarrow> r = Inr ()"
    using b r by auto
  have three: "r = Inr () \<longrightarrow> fst (connect_body e s) = Inr ()
      \<or> (\<exists>m' c'. fst (connect_body e s) = Inl (JsError m' c')
            \<and> str_includes m' ''already pending'')"
  proof (cases rb)
    case (Inl err)
    with r b show ?thesis by (auto simp: connect_catch_Inr)
  next
    case (Inr u)
    with b show ?thesis by simp
  qed
  have four: "r = Inr () \<and> (cl, Some t) \<in> set tr \<longrightarrow>
      (\<exists>m' c'. t = JsError m' c' \<and> str_includes m' ''already pending'')
      \<or> (cl = Request (Wallet_switchEthereumChain SEPOLIA_CHAIN_ID) \<and> code_of t = Some 4902)"
  proof (intro impI, elim conjE)
    assume ok: "r = Inr ()" and ev: "(cl, Some t) \<in> set tr"
    from connect_body_thrown [OF b, of cl t] ev tr
    consider "rb = Inl t"
      | "cl = Request (Wallet_switchEthereumChain SEPOLIA_CHAIN_ID) \<and> code_of t = Some 4902"
      | te where "read_code t = Inl te" and "rb = Inl te"
      by blast
    then show "(\<exists>m' c'. t = JsError m' c' \<and> str_includes m' ''already pending'')
      \<or> (cl = Request (Wallet_switchEthereumChain SEPOLIA_CHAIN_ID) \<and> code_of t = Some 4902)"
    proof cases
      case 1
      with r ok have "connect_catch t = Inr ()" by simp
      then show ?thesis by (simp add: connect_catch_Inr)
    next
      case 2
      then show ?thesis by simp
    next
      case 3
      with r ok have "connect_catch te = Inr ()" by simp
      with read_code_Inl [OF 3(1)] show ?thesis by auto
    qed
  qed
  from one two three four show ?thesis by blast
qed

theorem already_pending_swallowed_witness:
  "connect wallet_request_pending counterService
     = (Inr (), counterService, [(Request Eth_requestAccounts, Some pending_error)])
   \<and> str_includes (message pending_error) ''already pending''"
proof -
  obtain r where c: "connect wallet_request_pending counterService
     = (r, counterService, [(Request Eth_requestAccounts, Some pending_error)])"
    by (simp add: connect_unfold world_defs)
  have p: "str_includes
      ''Request of type wallet_requestPermissions already pending for origin. Please wait.''
      ''already pending''"
    by simp
  from already_pending_swallowed [OF c,
      of "''Request of type wallet_requestPermissions already pending for origin. Please wait.''"
        "Some (- 32002)"] p
  have "r = Inr ()" by (simp add: pending_error_def)
  with c p show ?thesis by (simp add: pending_error_def)
qed

section \<open>A failing chain switch\<close>

text \<open>
  C5, as stated, fails in its second half. A wallet on mainnet that rejects the switch
  with its "already pending" Error of code -32002 makes \<open>connect\<close> return normally: the
  error does not reach the caller at all. A wallet that rejects the switch with a plain
  object of code 4001 makes \<open>connect\<close> throw a new Error with the message of line 115,
  not the object.
\<close>

theorem other_switch_errors_not_propagated:
  "connect wallet_switch_pending counterService
     = (Inr (),
        \<lparr>contract = None, provider = Some (BrowserProvider 1),
          signer = Some (JsonRpcSigner 1)\<rparr>,
        [(Request Eth_requestAccounts, None), (NewBrowserProvider (BrowserProvider 1), None),
         (GetSigner (BrowserProvider 1), None), (GetNetwork (BrowserProvider 1), None),
         (Request (Wallet_switchEthereumChain ''0xaa36a7''), Some switch_pending)])
   \<and> code_of switch_pending = Some (- 32002)
   \<and> connect wallet_switch_declined counterService
     = (Inl (JsError msg_connect_failed None),
        \<lparr>contract = None, provider = Some (BrowserProvider 1),
          signer = Some (JsonRpcSigner 1)\<rparr>,
        [(Request Eth_requestAccounts, None), (NewBrowserProvider (BrowserProvider 1), None),
         (GetSigner (BrowserProvider 1), None), (GetNetwork (BrowserProvider 1), None),
         (Request (Wallet_switchEthereumChain ''0xaa36a7''), Some (NonError (Some 4001)))])"
  by (simp add: connect_switch_pending connect_switch_declined switch_pending_def)

text \<open>
  C5, amended. The parameter of the add-chain request is the fixed Sepolia descriptor.
  When the switch request of an execution throws a value whose code is 4902, the
  add-chain request with that descriptor is made, and when it succeeds the next call is
  the construction of the second provider handle. When the switch request throws
  anything else, no add-chain request is made. A value other than \<^verbatim>\<open>null\<close> and
  \<^verbatim>\<open>undefined\<close> then goes to the handler of lines 107 to 116 as it is: it reaches the
  caller unchanged when it is an Error whose message does not contain "already
  pending". For \<^verbatim>\<open>null\<close> and \<^verbatim>\<open>undefined\<close> the read of the code on line 54 throws,
  and the caller gets that TypeError.
\<close>

theorem switch_failure_handling:
  assumes "connect e s = (r, s', tr)"
    and "(Request (Wallet_switchEthereumChain cid), Some t) \<in> set tr"
  shows "sepolia_parameter
       = \<lparr>chainId_hex = ''0xaa36a7'', chainName = ''Sepolia'',
          nativeCurrency = \<lparr>currency_name = ''ETH'', symbol = ''ETH'', decimals = 18\<rparr>,
          rpcUrls = [''https://ethereum-sepolia-rpc.publicnode.com''],
          blockExplorerUrls = [''https://sepolia.etherscan.io'']\<rparr>
    \<and> (code_of t = Some 4902 \<longrightarrow>
          (Request (Wallet_addEthereumChain sepolia_parameter),
           request e (Wallet_addEthereumChain sepolia_parameter)) \<in> set tr
          \<and> (request e (Wallet_addEthereumChain sepolia_parameter) = None \<longrightarrow>
               hd (after_chain_requests tr) = (NewBrowserProvider (second_provider e), None)))
    \<and> (code_of t \<noteq> Some 4902 \<longrightarrow> (Request (Wallet_addEthereumChain d), out) \<notin> set tr)
    \<and> (code_of t \<noteq> Some 4902 \<and> t \<noteq> JsNull \<and> t \<noteq> JsUndefined \<longrightarrow> r = connect_catch t)
    \<and> (code_of t \<noteq> Some 4902 \<and> t = JsError m c \<and> \<not> str_includes m ''already pending''
          \<longrightarrow> r = Inl t)
    \<and> (t = JsNull \<longrightarrow> r = Inl (JsError msg_code_of_null None))
    \<and> (t = JsUndefined \<longrightarrow> r = Inl (JsError msg_code_of_undefined None))"
proof -
  from assms(2) have "tr \<noteq> []" by auto
  from connect_traced [OF assms(1) this] obtain rb
    where b: "connect_body e s = (rb, s', tr)"
      and r: "r = (case rb of Inl err \<Rightarrow> connect_catch err | Inr u \<Rightarrow> Inr ())"
    by blast
  note f = connect_body_switch_failed [OF b assms(2), of d out]
  have p: "sepolia_parameter
       = \<lparr>chainId_hex = ''0xaa36a7'', chainName = ''Sepolia'',
          nativeCurrency = \<lparr>currency_name = ''ETH'', symbol = ''ETH'', decimals = 18\<rparr>,
          rpcUrls = [''https://ethereum-sepolia-rpc.publicnode.com''],
          blockExplorerUrls = [''https://sepolia.etherscan.io'']\<rparr>"
    by (simp add: sepolia_parameter_def SEPOLIA_CHAIN_ID_def)
  have other: "code_of t \<noteq> Some 4902 \<and> t \<noteq> JsNull \<and> t \<noteq> JsUndefined
      \<longrightarrow> r = connect_catch t"
    using f r by auto
  have null: "t = JsNull \<longrightarrow> r = Inl (JsError msg_code_of_null None)"
    using f [of "JsError msg_code_of_null None"] r by (auto simp: type_error_not_pending)
  have undefined: "t = JsUndefined \<longrightarrow> r = Inl (JsError msg_code_of_undefined None)"
    using f [of "JsError msg_code_of_undefined None"] r
    by (auto simp: type_error_not_pending)
  from p f other null undefined show ?thesis by auto
qed

theorem switch_failure_handling_witness:
  "(Request (Wallet_addEthereumChain sepolia_parameter), None)
     \<in> set (snd (snd (connect wallet_adds_without_switching counterService)))
   \<and> hd (after_chain_requests (snd (snd (connect wallet_adds_without_switching counterService))))
       = (NewBrowserProvider (BrowserProvider 2), None)
   \<and> fst (connect wallet_switch_rejected counterService) = Inl user_rejected
   \<and> fst (connect wallet_switch_rejects_null counterService)
       = Inl (JsError msg_code_of_null None)"
proof -
  have a: "(Request (Wallet_switchEthereumChain ''0xaa36a7''), Some unknown_chain)
      \<in> set [(Request Eth_requestAccounts, None), (NewBrowserProvider (BrowserProvider 1), None),
         (GetSigner (BrowserProvider 1), None), (GetNetwork (BrowserProvider 1), None),
         (Request (Wallet_switchEthereumChain ''0xaa36a7''), Some unknown_chain),
         (Request (Wallet_addEthereumChain sepolia_parameter), None),
         (NewBrowserProvider (BrowserProvider 2), None),
         (GetSigner (BrowserProvider 2), None), (GetNetwork (BrowserProvider 2), None),
         (GetCode (BrowserProvider 2) ''0x5FbDB2315678afecb367f032d93F642f64180aa3'', None),
         (NewContract ''0x5FbDB2315678afecb367f032d93F642f64180aa3'' (JsonRpcSigner 1), None)]"
    by simp
  have b: "(Request (Wallet_switchEthereumChain ''0xaa36a7''), Some user_rejected)
      \<in> set [(Request Eth_requestAccounts, None), (NewBrowserProvider (BrowserProvider 1), None),
         (GetSigner (BrowserProvider 1), None), (GetNetwork (BrowserProvider 1), None),
         (Request (Wallet_switchEthereumChain ''0xaa36a7''), Some user_rejected)]"
    by simp
  obtain rn where n: "connect wallet_switch_rejects_null counterService
      = (rn,
         \<lparr>contract = None, provider = Some (BrowserProvider 1),
           signer = Some (JsonRpcSigner 1)\<rparr>,
         [(Request Eth_requestAccounts, None), (NewBrowserProvider (BrowserProvider 1), None),
          (GetSigner (BrowserProvider 1), None), (GetNetwork (BrowserProvider 1), None),
          (Request (Wallet_switchEthereumChain ''0xaa36a7''), Some JsNull)])"
    by (simp add: connect_unfold world_defs)
  have c: "(Request (Wallet_switchEthereumChain ''0xaa36a7''), Some JsNull)
      \<in> set [(Request Eth_requestAccounts, None), (NewBrowserProvider (BrowserProvider 1), None),
         (GetSigner (BrowserProvider 1), None), (GetNetwork (BrowserProvider 1), None),
         (Request (Wallet_switchEthereumChain ''0xaa36a7''), Some JsNull)]"
    by simp
  have add: "request wallet_adds_without_switching (Wallet_addEthereumChain sepolia_parameter)
      = None"
    by (simp add: world_defs)
  have code: "code_of unknown_chain = Some 4902"
    "code_of user_rejected \<noteq> Some 4902"
    "user_rejected = JsError ''User rejected the request.'' (Some 4001)"
    "\<not> str_includes ''User rejected the request.'' ''already pending''"
    "second_provider wallet_adds_without_switching = BrowserProvider 2"
    by (simp_all add: world_defs)
  from switch_failure_handling [OF n c] have "rn = Inl (JsError msg_code_of_null None)"
    by simp
  with n switch_failure_handling [OF connect_adds_without_switching a]
    switch_failure_handling [OF connect_switch_rejected b,
      of _ _ "''User rejected the request.''" "Some 4001"] add code
  show ?thesis
    by (simp add: connect_adds_without_switching connect_switch_rejected)
qed

section \<open>After a chain switch\<close>

text \<open>
  C6, as stated, fails in its last part. A wallet on mainnet that does not know Sepolia
  accepts the add-chain request and stays on mainnet. The handles are derived again and
  the network is asked of the second provider handle, which reports chain 1, and
  \<open>connect\<close> goes on to bind the contract handle and returns normally.
\<close>

theorem added_chain_still_on_mainnet:
  "connect wallet_adds_without_switching counterService
     = (Inr (),
        \<lparr>contract = Some (Contract ''0x5FbDB2315678afecb367f032d93F642f64180aa3''
                           (JsonRpcSigner 1)),
          provider = Some (BrowserProvider 2), signer = Some (JsonRpcSigner 1)\<rparr>,
        [(Request Eth_requestAccounts, None), (NewBrowserProvider (BrowserProvider 1), None),
         (GetSigner (BrowserProvider 1), None), (GetNetwork (BrowserProvider 1), None),
         (Request (Wallet_switchEthereumChain ''0xaa36a7''), Some unknown_chain),
         (Request (Wallet_addEthereumChain sepolia_parameter), None),
         (NewBrowserProvider (BrowserProvider 2), None),
         (GetSigner (BrowserProvider 2), None), (GetNetwork (BrowserProvider 2), None),
         (GetCode (BrowserProvider 2) ''0x5FbDB2315678afecb367f032d93F642f64180aa3'', None),
         (NewContract ''0x5FbDB2315678afecb367f032d93F642f64180aa3'' (JsonRpcSigner 1), None)])
   \<and> provider_getNetwork wallet_adds_without_switching (BrowserProvider 2)
       = Inr \<lparr>name = ''mainnet'', chainId = 1\<rparr>"
  by (simp add: connect_adds_without_switching) (simp add: world_defs)

text \<open>
  C6, amended. In every execution of \<open>connect\<close> in which the switch request or the
  add-chain request succeeds, the calls that follow the chain requests are the
  construction of the second provider handle and the signer request on it, and the
  Session ends with that provider handle; when the signer request succeeds the Session
  ends with the signer it returned, and the next call asks the second provider handle
  for the network. What that call reports is not examined.
\<close>

theorem handles_rederived_after_switch:
  assumes "connect e s = (r, s', tr)"
    and "(Request (Wallet_switchEthereumChain cid), None) \<in> set tr
     \<or> (Request (Wallet_addEthereumChain d), None) \<in> set tr"
  shows "provider s' = Some (second_provider e)
    \<and> take 2 (after_chain_requests tr)
        = [(NewBrowserProvider (second_provider e), None),
           (GetSigner (second_provider e),
            thrown_of (provider_getSigner e (second_provider e)))]
    \<and> (provider_getSigner e (second_provider e) = Inr sg \<longrightarrow>
         signer s' = Some sg
         \<and> take 3 (after_chain_requests tr)
             = [(NewBrowserProvider (second_provider e), None),
                (GetSigner (second_provider e), None),
                (GetNetwork (second_provider e),
                 thrown_of (provider_getNetwork e (second_provider e)))])"
proof -
  from assms(2) have "tr \<noteq> []" by auto
  from connect_traced [OF assms(1) this] obtain rb
    where b: "connect_body e s = (rb, s', tr)"
    by blast
  from connect_body_rederived [OF b assms(2)] show ?thesis .
qed

theorem handles_rederived_after_switch_witness:
  "provider (fst (snd (connect wallet_on_mainnet counterService))) = Some (BrowserProvider 2)
   \<and> signer (fst (snd (connect wallet_on_mainnet counterService))) = Some (JsonRpcSigner 1)
   \<and> take 3 (after_chain_requests (snd (snd (connect wallet_on_mainnet counterService))))
       = [(NewBrowserProvider (BrowserProvider 2), None),
          (GetSigner (BrowserProvider 2), None),
          (GetNetwork (BrowserProvider 2), None)]"
proof -
  have a: "(Request (Wallet_switchEthereumChain ''0xaa36a7''), None)
      \<in> set [(Request Eth_requestAccounts, None), (NewBrowserProvider (BrowserProvider 1), None),
         (GetSigner (BrowserProvider 1), None), (GetNetwork (BrowserProvider 1), None),
         (Request (Wallet_switchEthereumChain ''0xaa36a7''), None),
         (NewBrowserProvider (BrowserProvider 2), None),
         (GetSigner (BrowserProvider 2), None), (GetNetwork (BrowserProvider 2), None),
         (GetCode (BrowserProvider 2) ''0x5FbDB2315678afecb367f032d93F642f64180aa3'', None),
         (NewContract ''0x5FbDB2315678afecb367f032d93F642f64180aa3'' (JsonRpcSigner 1), None)]
      \<or> (Request (Wallet_addEthereumChain sepolia_parameter), None)
      \<in> set [(Request Eth_requestAccounts, None), (NewBrowserProvider (BrowserProvider 1), None),
         (GetSigner (BrowserProvider 1), None), (GetNetwork (BrowserProvider 1), None),
         (Request (Wallet_switchEthereumChain ''0xaa36a7''), None),
         (NewBrowserProvider (BrowserProvider 2), None),
         (GetSigner (BrowserProvider 2), None), (GetNetwork (BrowserProvider 2), None),
         (GetCode (BrowserProvider 2) ''0x5FbDB2315678afecb367f032d93F642f64180aa3'', None),
         (NewContract ''0x5FbDB2315678afecb367f032d93F642f64180aa3'' (JsonRpcSigner 1), None)]"
    by simp
  have w: "second_provider wallet_on_mainnet = BrowserProvider 2"
    "provider_getSigner wallet_on_mainnet (BrowserProvider 2) = Inr (JsonRpcSigner 1)"
    "provider_getNetwork wallet_on_mainnet (BrowserProvider 2) = Inr sepolia"
    by (simp_all add: world_defs)
  from handles_rederived_after_switch [OF connect_on_mainnet a, of "JsonRpcSigner 1"] w
  show ?thesis
    by (simp add: connect_on_mainnet)
qed

section \<open>A wallet already on Sepolia\<close>

text \<open>
  C7. In every execution of \<open>connect\<close> in which the first provider handle reports the
  chain identifier 11155111, the trace holds no \<^verbatim>\<open>wallet_switchEthereumChain\<close> and no
  \<^verbatim>\<open>wallet_addEthereumChain\<close> request, whatever their parameters and outcomes.
\<close>

theorem no_chain_request_on_sepolia:
  assumes "connect e s = (r, s', tr)"
    and "provider_getNetwork e (first_provider e) = Inr nw"
    and "chainId nw = 11155111"
  shows "(Request (Wallet_switchEthereumChain cid), out) \<notin> set tr
    \<and> (Request (Wallet_addEthereumChain d), out') \<notin> set tr"
proof (cases "tr = []")
  case True
  then show ?thesis by simp
next
  case False
  from connect_traced [OF assms(1) False] obtain rb
    where b: "connect_body e s = (rb, s', tr)"
    by blast
  from connect_body_on_sepolia [OF b assms(2,3)] show ?thesis .
qed

theorem no_chain_request_on_sepolia_witness:
  "provider_getNetwork wallet_on_sepolia (first_provider wallet_on_sepolia) = Inr sepolia
   \<and> chainId sepolia = 11155111
   \<and> (Request (Wallet_switchEthereumChain ''0xaa36a7''), None)
       \<notin> set (snd (snd (connect wallet_on_sepolia counterService)))
   \<and> (Request (Wallet_addEthereumChain sepolia_parameter), None)
       \<notin> set (snd (snd (connect wallet_on_sepolia counterService)))"
proof -
  have n: "provider_getNetwork wallet_on_sepolia (first_provider wallet_on_sepolia) = Inr sepolia"
    by (simp add: world_defs)
  have c: "chainId sepolia = 11155111"
    by (simp add: sepolia_def)
  from no_chain_request_on_sepolia [OF connect_on_sepolia n c] n c
  show ?thesis
    by (simp only: connect_on_sepolia snd_conv) blast
qed

section \<open>Read errors\<close>

text \<open>
  C8. On a Session holding a contract and a provider handle, when the contract read of
  \<open>getCounter\<close> throws an Error whose message contains "could not decode result data",
  \<open>getCounter\<close> throws the ContractReadError of line 134; when the read throws anything
  else, \<open>getCounter\<close> throws that same value. Likewise for \<open>getOwner\<close> and the
  ContractReadError of line 178.
\<close>

theorem read_errors_translated:
  assumes "contract s = Some c" and "provider s = Some p"
  shows "(contract_getCounter e c = Inl (JsError m k)
            \<and> str_includes m ''could not decode result data'' \<longrightarrow>
          fst (getCounter e s) = Inl (JsError msg_counter_unreadable None)
          \<and> is_ContractReadError (JsError msg_counter_unreadable None))
    \<and> (contract_getCounter e c = Inl t
          \<and> \<not> (\<exists>m' k'. t = JsError m' k' \<and> str_includes m' ''could not decode result data'')
          \<longrightarrow> fst (getCounter e s) = Inl t)
    \<and> (contract_owner e c = Inl (JsError m k)
            \<and> str_includes m ''could not decode result data'' \<longrightarrow>
          fst (getOwner e s) = Inl (JsError msg_owner_unreadable None)
          \<and> is_ContractReadError (JsError msg_owner_unreadable None))
    \<and> (contract_owner e c = Inl t
          \<and> \<not> (\<exists>m' k'. t = JsError m' k' \<and> str_includes m' ''could not decode result data'')
          \<longrightarrow> fst (getOwner e s) = Inl t)"
  using assms
  by (cases t) (auto simp: getCounter_def getOwner_def is_ContractReadError_def)

theorem read_errors_translated_witness:
  "fst (getCounter wallet_wrong_contract connected_session)
     = Inl (JsError msg_counter_unreadable None)
   \<and> fst (getOwner wallet_wrong_contract connected_session)
     = Inl (JsError msg_owner_unreadable None)
   \<and> fst (getCounter wallet_node_down connected_session) = Inl node_error
   \<and> fst (getOwner wallet_node_down connected_session) = Inl node_error"
proof -
  have s: "contract connected_session
      = Some (Contract ''0x5FbDB2315678afecb367f032d93F642f64180aa3'' (JsonRpcSigner 1))"
    "provider connected_session = Some (BrowserProvider 1)"
    by (simp_all add: connected_session_def)
  have w: "contract_getCounter wallet_wrong_contract
        (Contract ''0x5FbDB2315678afecb367f032d93F642f64180aa3'' (JsonRpcSigner 1))
      = Inl (JsError ''could not decode result data (value=0x, code=BAD_DATA, version=6.13.0)''
               None)"
    "contract_owner wallet_wrong_contract
        (Contract ''0x5FbDB2315678afecb367f032d93F642f64180aa3'' (JsonRpcSigner 1))
      = Inl (JsError ''could not decode result data (value=0x, code=BAD_DATA, version=6.13.0)''
               None)"
    "str_includes ''could not decode result data (value=0x, code=BAD_DATA, version=6.13.0)''
       ''could not decode result data''"
    by (simp_all add: world_defs)
  have n: "contract_getCounter wallet_node_down
        (Contract ''0x5FbDB2315678afecb367f032d93F642f64180aa3'' (JsonRpcSigner 1))
      = Inl node_error"
    "contract_owner wallet_node_down
        (Contract ''0x5FbDB2315678afecb367f032d93F642f64180aa3'' (JsonRpcSigner 1))
      = Inl node_error"
    "\<not> (\<exists>m' k'. node_error = JsError m' k'
          \<and> str_includes m' ''could not decode result data'')"
    by (simp_all add: world_defs)
  from read_errors_translated [OF s, of wallet_wrong_contract
      "''could not decode result data (value=0x, code=BAD_DATA, version=6.13.0)''" None]
    read_errors_translated [OF s, of wallet_node_down _ _ node_error] w n
  show ?thesis by blast
qed

section \<open>The not-deployed error after a switch\<close>

text \<open>
  C9. The claim holds when no switch took place. After a switch it does not: with a
  wallet that moves from mainnet to Sepolia and no code at the address on Sepolia, the
  byte-code is asked of the second provider handle, which is on Sepolia, and the Error
  thrown names mainnet and chain 1, the identity fetched before the switch (the
  \<^verbatim>\<open>network\<close> and \<^verbatim>\<open>chainId\<close> of lines 36 and 37, not \<^verbatim>\<open>updatedNetwork\<close>).
\<close>

theorem not_deployed_reports_stale_network:
  "connect wallet_switched_without_code counterService
     = (Inl (JsError (not_deployed_message ''0x5FbDB2315678afecb367f032d93F642f64180aa3''
                ''mainnet'' 1) None),
        \<lparr>contract = None, provider = Some (BrowserProvider 2),
          signer = Some (JsonRpcSigner 1)\<rparr>,
        [(Request Eth_requestAccounts, None), (NewBrowserProvider (BrowserProvider 1), None),
         (GetSigner (BrowserProvider 1), None), (GetNetwork (BrowserProvider 1), None),
         (Request (Wallet_switchEthereumChain ''0xaa36a7''), None),
         (NewBrowserProvider (BrowserProvider 2), None),
         (GetSigner (BrowserProvider 2), None), (GetNetwork (BrowserProvider 2), None),
         (GetCode (BrowserProvider 2) ''0x5FbDB2315678afecb367f032d93F642f64180aa3'', None)])
   \<and> provider_getNetwork wallet_switched_without_code (BrowserProvider 2)
       = Inr \<lparr>name = ''sepolia'', chainId = 11155111\<rparr>
   \<and> not_deployed_message ''0x5FbDB2315678afecb367f032d93F642f64180aa3'' ''mainnet'' 1
       \<noteq> not_deployed_message ''0x5FbDB2315678afecb367f032d93F642f64180aa3'' ''sepolia''
           11155111"
  by (simp add: connect_switched_without_code) (simp add: world_defs message_defs)

section \<open>The connectedness checks\<close>

text \<open>
  C10. \<open>getCounter\<close> throws NotConnectedError, making no call, whenever the contract
  handle or the provider handle is absent. \<open>incrementCounter\<close>, \<open>decrementCounter\<close>,
  \<open>resetCounter\<close> and \<open>getOwner\<close> look at the contract handle only: without it they
  throw NotConnectedError and make no call, with it their first call is the contract
  call, whatever the provider handle is. So on a Session with a contract handle and no
  provider handle, \<open>getCounter\<close> throws NotConnectedError and the other four go on to
  the contract call.
\<close>

theorem asymmetric_connectedness_check:
  "is_NotConnectedError (JsError msg_contract_not_connected None)
   \<and> (contract s = None \<or> provider s = None \<longrightarrow>
        getCounter e s = (Inl (JsError msg_contract_not_connected None), s, []))
   \<and> (contract s = None \<longrightarrow>
        incrementCounter e s = (Inl (JsError msg_contract_not_connected None), s, [])
        \<and> decrementCounter e s = (Inl (JsError msg_contract_not_connected None), s, [])
        \<and> resetCounter e s = (Inl (JsError msg_contract_not_connected None), s, [])
        \<and> getOwner e s = (Inl (JsError msg_contract_not_connected None), s, []))
   \<and> (contract s = Some c \<longrightarrow>
        hd (snd (snd (incrementCounter e s)))
          = (Send c IncrementCounter, thrown_of (contract_send e c IncrementCounter))
        \<and> hd (snd (snd (decrementCounter e s)))
          = (Send c DecrementCounter, thrown_of (contract_send e c DecrementCounter))
        \<and> hd (snd (snd (resetCounter e s)))
          = (Send c ResetCounter, thrown_of (contract_send e c ResetCounter))
        \<and> snd (snd (getOwner e s)) = [(CallOwner c, thrown_of (contract_owner e c))])"
  by (auto simp: getCounter_def getOwner_def incrementCounter_def decrementCounter_def
      resetCounter_def submit_def is_NotConnectedError_def split: sum.splits option.splits)

theorem asymmetric_connectedness_check_witness:
  "contract session_without_provider
     = Some (Contract ''0x5FbDB2315678afecb367f032d93F642f64180aa3'' (JsonRpcSigner 1))
   \<and> provider session_without_provider = None
   \<and> getCounter wallet_on_sepolia session_without_provider
     = (Inl (JsError msg_contract_not_connected None), session_without_provider, [])
   \<and> hd (snd (snd (incrementCounter wallet_on_sepolia session_without_provider)))
     = (Send (Contract ''0x5FbDB2315678afecb367f032d93F642f64180aa3'' (JsonRpcSigner 1))
          IncrementCounter, None)
   \<and> snd (snd (getOwner wallet_on_sepolia session_without_provider))
     = [(CallOwner (Contract ''0x5FbDB2315678afecb367f032d93F642f64180aa3'' (JsonRpcSigner 1)),
         None)]
   \<and> getCounter wallet_on_sepolia counterService
     = (Inl (JsError msg_contract_not_connected None), counterService, [])
   \<and> getOwner wallet_on_sepolia counterService
     = (Inl (JsError msg_contract_not_connected None), counterService, [])"
proof -
  have s: "contract session_without_provider
      = Some (Contract ''0x5FbDB2315678afecb367f032d93F642f64180aa3'' (JsonRpcSigner 1))"
    "provider session_without_provider = None"
    "contract counterService = None"
    by (simp_all add: world_defs)
  have w: "contract_send wallet_on_sepolia
        (Contract ''0x5FbDB2315678afecb367f032d93F642f64180aa3'' (JsonRpcSigner 1))
        IncrementCounter = Inr (ContractTransactionResponse 1)"
    "contract_owner wallet_on_sepolia
        (Contract ''0x5FbDB2315678afecb367f032d93F642f64180aa3'' (JsonRpcSigner 1))
      = Inr ''0xf39Fd6e51aad88F6F4ce6aB8827279cffFb92266''"
    by (simp_all add: world_defs)
  from asymmetric_connectedness_check [of session_without_provider wallet_on_sepolia
      "Contract ''0x5FbDB2315678afecb367f032d93F642f64180aa3'' (JsonRpcSigner 1)"]
    asymmetric_connectedness_check [of counterService wallet_on_sepolia] s w
  show ?thesis by simp
qed

end
